theory Spec2Isabelle
  imports Complex_Main
begin

section \<open>Numbers of the program\<close>

text \<open>
  The program (\<^verbatim>\<open>libs/lensfun/mod-pc.cpp\<close>) computes with C++ \<^verbatim>\<open>float\<close> and
  \<^verbatim>\<open>double\<close>. The embedding keeps what decides the control flow of the program and
  leaves rounding out: a number is either a real (\<open>Fin r\<close>, computed exactly) or \<open>NaN\<close>.
  \<^item> Every arithmetic operation and every function of the C library returns \<open>NaN\<close> when
    an argument is \<open>NaN\<close>.
  \<^item> Every ordered comparison with \<open>NaN\<close> is false, and \<open>NaN == NaN\<close> is false
    (\<open>feq\<close>); HOL's \<open>=\<close> on \<open>float\<close> is identity of values and is never used for the
    program's \<^verbatim>\<open>==\<close>.
  \<^item> A division by zero returns \<open>NaN\<close>. For \<^verbatim>\<open>0/0\<close> that is the machine's result; for
    \<^verbatim>\<open>x/0\<close> with \<open>x \<noteq> 0\<close> the machine returns an infinity, which the model does
    not tell apart from \<open>NaN\<close>. The same holds for \<open>log\<close> at zero.
  \<^item> \<^verbatim>\<open>float\<close> and \<^verbatim>\<open>double\<close> are one type, and no operation rounds.

  A call on which the machine meets an infinity, or on which rounding decides a
  comparison, is therefore outside the embedding: a theorem stated for every input
  speaks of the calls on which neither happens, and the examples are chosen so that the
  arithmetic of the machine is exact or the outcome does not depend on the last digits.
\<close>

datatype float = NaN | Fin real

instantiation float :: "{zero, one, plus, minus, uminus, times, inverse, ord}"
begin

definition zero_float_def: "(0::float) = Fin 0"

definition one_float_def: "(1::float) = Fin 1"

definition plus_float_def:
  "(a::float) + b = (case a of NaN \<Rightarrow> NaN | Fin u \<Rightarrow> (case b of NaN \<Rightarrow> NaN | Fin v \<Rightarrow> Fin (u + v)))"

definition minus_float_def:
  "(a::float) - b = (case a of NaN \<Rightarrow> NaN | Fin u \<Rightarrow> (case b of NaN \<Rightarrow> NaN | Fin v \<Rightarrow> Fin (u - v)))"

definition uminus_float_def:
  "- (a::float) = (case a of NaN \<Rightarrow> NaN | Fin u \<Rightarrow> Fin (- u))"

definition times_float_def:
  "(a::float) * b = (case a of NaN \<Rightarrow> NaN | Fin u \<Rightarrow> (case b of NaN \<Rightarrow> NaN | Fin v \<Rightarrow> Fin (u * v)))"

definition divide_float_def:
  "divide (a::float) b = (case a of NaN \<Rightarrow> NaN | Fin u \<Rightarrow>
             (case b of NaN \<Rightarrow> NaN | Fin v \<Rightarrow> if v = 0 then NaN else Fin (u / v)))"

definition inverse_float_def:
  "inverse (a::float) = (case a of NaN \<Rightarrow> NaN | Fin u \<Rightarrow> if u = 0 then NaN else Fin (inverse u))"

definition less_float_def:
  "(a::float) < b = (case a of NaN \<Rightarrow> False | Fin u \<Rightarrow> (case b of NaN \<Rightarrow> False | Fin v \<Rightarrow> u < v))"

definition less_eq_float_def:
  "(a::float) \<le> b = (case a of NaN \<Rightarrow> False | Fin u \<Rightarrow> (case b of NaN \<Rightarrow> False | Fin v \<Rightarrow> u \<le> v))"

instance ..

end

instance float :: semigroup_add
  by standard (simp add: plus_float_def add.assoc split: float.splits)

instance float :: numeral ..

text \<open>The program's \<^verbatim>\<open>==\<close> on numbers, \<^verbatim>\<open>isnan\<close>, and the conversion of an \<^verbatim>\<open>int\<close>.\<close>

definition feq :: "float \<Rightarrow> float \<Rightarrow> bool" where
  "feq a b = (case a of NaN \<Rightarrow> False | Fin u \<Rightarrow> (case b of NaN \<Rightarrow> False | Fin v \<Rightarrow> u = v))"

definition isnan :: "float \<Rightarrow> bool" where
  "isnan a = (case a of NaN \<Rightarrow> True | Fin u \<Rightarrow> False)"

definition float_of_int :: "int \<Rightarrow> float" where
  "float_of_int i = Fin (of_int i)"

subsection \<open>Functions of the C library\<close>

text \<open>
  The functions of \<^verbatim>\<open><cmath>\<close> the program calls, on the numbers above. Outside its
  domain a function returns \<open>NaN\<close>, as the C library does. \<open>pow\<close> is used by the
  program with the exponent 2 only.
\<close>

definition pow :: "float \<Rightarrow> nat \<Rightarrow> float" where
  "pow a n = (case a of NaN \<Rightarrow> NaN | Fin u \<Rightarrow> Fin (u ^ n))"

definition fsqrt :: "float \<Rightarrow> float" where
  "fsqrt a = (case a of NaN \<Rightarrow> NaN | Fin u \<Rightarrow> if u < 0 then NaN else Fin (sqrt u))"

definition fsin :: "float \<Rightarrow> float" where
  "fsin a = (case a of NaN \<Rightarrow> NaN | Fin u \<Rightarrow> Fin (sin u))"

definition fcos :: "float \<Rightarrow> float" where
  "fcos a = (case a of NaN \<Rightarrow> NaN | Fin u \<Rightarrow> Fin (cos u))"

definition fatan :: "float \<Rightarrow> float" where
  "fatan a = (case a of NaN \<Rightarrow> NaN | Fin u \<Rightarrow> Fin (arctan u))"

definition facos :: "float \<Rightarrow> float" where
  "facos a = (case a of NaN \<Rightarrow> NaN | Fin u \<Rightarrow> if u < - 1 \<or> 1 < u then NaN else Fin (arccos u))"

definition flog :: "float \<Rightarrow> float" where
  "flog a = (case a of NaN \<Rightarrow> NaN | Fin u \<Rightarrow> if u \<le> 0 then NaN else Fin (ln u))"

definition fabs :: "float \<Rightarrow> float" where
  "fabs a = (case a of NaN \<Rightarrow> NaN | Fin u \<Rightarrow> Fin \<bar>u\<bar>)"

text \<open>
  \<^verbatim>\<open>fmod (a, b)\<close> is \<open>a - n * b\<close> where \<open>n\<close> is \<open>a / b\<close> with its fraction cut off
  (rounded towards zero), so the result has the sign of \<open>a\<close>.
\<close>

definition trunc :: "real \<Rightarrow> real" where
  "trunc u = (if 0 \<le> u then of_int \<lfloor>u\<rfloor> else of_int \<lceil>u\<rceil>)"

definition fmod :: "float \<Rightarrow> float \<Rightarrow> float" where
  "fmod a b = (case a of NaN \<Rightarrow> NaN | Fin u \<Rightarrow>
                (case b of NaN \<Rightarrow> NaN | Fin v \<Rightarrow>
                   if v = 0 then NaN else Fin (u - trunc (u / v) * v)))"

text \<open>
  \<^verbatim>\<open>atan2 (y, x)\<close> is the angle of the point \<open>(x, y)\<close> in \<open>(-\<pi>, \<pi>]\<close>; at the origin
  the model returns 0 (the machine returns \<open>\<plusminus>0\<close> or \<open>\<plusminus>\<pi>\<close> by the signs of its zeros).
\<close>

definition atan2 :: "float \<Rightarrow> float \<Rightarrow> float" where
  "atan2 b a = (case b of NaN \<Rightarrow> NaN | Fin y \<Rightarrow>
                 (case a of NaN \<Rightarrow> NaN | Fin x \<Rightarrow>
                    Fin (if 0 < x then arctan (y / x)
                         else if x < 0 \<and> 0 \<le> y then arctan (y / x) + pi
                         else if x < 0 then arctan (y / x) - pi
                         else if 0 < y then pi / 2
                         else if y < 0 then - (pi / 2)
                         else 0)))"

definition M_PI :: float where
  "M_PI = Fin pi"

definition M_PI_2 :: float where
  "M_PI_2 = Fin (pi / 2)"

type_synonym fvector = "float list"

type_synonym matrix = "float list list"

section \<open>The per-pixel callback\<close>

text \<open>
  \<^verbatim>\<open>lfModifier::ModifyCoord_Perspective_Correction (void *data, float *iocoord, int count)\<close>,
  lines 560 to 575. \<open>data\<close> is the parameter block, \<open>iocoord\<close> the buffer of \<open>count\<close>
  interleaved pairs, returned as the loop leaves it. The body reads the first number of
  the block only:
  \<^verbatim>\<open>
    const float k1 = *(float *)data;
    const float one_minus_k1 = 1.0 - k1;
    for (float *end = iocoord + count * 2; iocoord < end; iocoord += 2)
    {
        const float x = iocoord [0];
        const float y = iocoord [1];
        const float poly2 = one_minus_k1 + k1 * (pow (x, 2) + pow (y, 2));
        iocoord [0] = x * poly2;
        iocoord [1] = y * poly2;
    }
  \<close>
  A buffer shorter than \<open>2 * count\<close> is read out of bounds by the program; the model
  stops at the end of the buffer. \<open>count\<close> is a natural number: with a negative
  \<open>count\<close> the loop of the program does not run.
\<close>

fun ModifyCoord_loop :: "float \<Rightarrow> float \<Rightarrow> float list \<Rightarrow> nat \<Rightarrow> float list" where
  "ModifyCoord_loop k1 one_minus_k1 iocoord 0 = iocoord"
| "ModifyCoord_loop k1 one_minus_k1 (x # y # rest) (Suc count) =
     (let poly2 = one_minus_k1 + k1 * (pow x 2 + pow y 2)
      in (x * poly2) # (y * poly2) # ModifyCoord_loop k1 one_minus_k1 rest count)"
| "ModifyCoord_loop k1 one_minus_k1 iocoord (Suc count) = iocoord"

definition ModifyCoord_Perspective_Correction :: "float list \<Rightarrow> float list \<Rightarrow> nat \<Rightarrow> float list" where
  "ModifyCoord_Perspective_Correction data iocoord count =
     (let k1 = data ! 0;
          one_minus_k1 = 1 - k1
      in ModifyCoord_loop k1 one_minus_k1 iocoord count)"

text \<open>
  The callback as the specification words it, for comparison with the program's: with the
  block \<open>[A00 s, A01 s, A02, A10 s, A11 s, A12, A20 s, A21 s, A22, f, \<Delta>a / s, \<Delta>b / s]\<close>
  it maps \<open>(x, y)\<close> to \<open>(x' f / z', y' f / z')\<close> where \<open>(x', y', z')\<close> is the packed
  matrix applied to \<open>(x + \<Delta>a / s, y + \<Delta>b / s, f)\<close>.
\<close>

fun spec_callback_loop :: "float list \<Rightarrow> float list \<Rightarrow> nat \<Rightarrow> float list" where
  "spec_callback_loop p iocoord 0 = iocoord"
| "spec_callback_loop p (x # y # rest) (Suc count) =
     (let u = x + p ! 10;
          v = y + p ! 11;
          f = p ! 9;
          x' = p ! 0 * u + p ! 1 * v + p ! 2 * f;
          y' = p ! 3 * u + p ! 4 * v + p ! 5 * f;
          z' = p ! 6 * u + p ! 7 * v + p ! 8 * f
      in (x' * f / z') # (y' * f / z') # spec_callback_loop p rest count)"
| "spec_callback_loop p iocoord (Suc count) = iocoord"

definition spec_callback :: "float list \<Rightarrow> float list \<Rightarrow> nat \<Rightarrow> float list" where
  "spec_callback data iocoord count = spec_callback_loop data iocoord count"

section \<open>Linear-algebra primitives\<close>

text \<open>
  \<^verbatim>\<open>normalize\<close> (lines 26 to 31, here \<open>normalize_vec\<close>: HOL has a constant
  \<open>normalize\<close>), \<^verbatim>\<open>central_projection\<close> (lines 33 to 38) and
  \<^verbatim>\<open>intersection\<close> (lines 200 to 213). A reference parameter the function assigns is a
  component of the result. \<^verbatim>\<open>std::accumulate (first, last, 0.)\<close> adds the elements to
  the start value from the left.
\<close>

definition normalize_vec :: "float \<Rightarrow> float \<Rightarrow> fvector" where
  "normalize_vec x y =
     (let norm = fsqrt (pow x 2 + pow y 2)
      in [x / norm, y / norm])"

definition central_projection :: "fvector \<Rightarrow> float \<Rightarrow> float \<times> float" where
  "central_projection coordinates plane_distance =
     (let stretch_factor = plane_distance / coordinates ! 2
      in (coordinates ! 0 * stretch_factor, coordinates ! 1 * stretch_factor))"

definition intersection :: "fvector \<Rightarrow> fvector \<Rightarrow> float \<times> float" where
  "intersection x y =
     (let A = x ! 0 * y ! 1 - y ! 0 * x ! 1;
          B = x ! 2 * y ! 3 - y ! 2 * x ! 3;
          C = (x ! 0 - x ! 1) * (y ! 2 - y ! 3) - (y ! 0 - y ! 1) * (x ! 2 - x ! 3);
          numerator_x = A * (x ! 2 - x ! 3) - B * (x ! 0 - x ! 1);
          numerator_y = A * (y ! 2 - y ! 3) - B * (y ! 0 - y ! 1)
      in (numerator_x / C, numerator_y / C))"

definition accumulate :: "fvector \<Rightarrow> float \<Rightarrow> float" where
  "accumulate xs init = fold (\<lambda>v acc. acc + v) xs init"

subsection \<open>The singular value decomposition\<close>

text \<open>
  \<^verbatim>\<open>svd\<close>, lines 40 to 121: a one-sided Jacobi iteration on the columns of \<open>M\<close>, which
  is first resized to \<open>2 n\<close> rows (new rows are zero) with a unit matrix written into
  the rows from \<open>n\<close> on. \<open>svd_rotate\<close> is the loop over \<open>i < 2 n\<close> that rotates the
  columns \<open>j\<close> and \<open>k\<close> (lines 82 to 88 and 100 to 106; the matrix has \<open>2 n\<close> rows);
  \<open>svd_pair\<close> is the body of the loops over \<open>j\<close> and \<open>k\<close> (lines 61 to 107);
  \<open>svd_pairs\<close> lists the pairs \<open>(j, k)\<close> in the order the two \<^verbatim>\<open>for\<close> loops visit
  them; \<open>svd_shrink_rank\<close> is the inner \<^verbatim>\<open>while\<close> (lines 109 to 112); \<open>svd_cycles\<close>
  is the outer \<^verbatim>\<open>while (counter != 0 && iterations++ <= max_cycles)\<close>, whose test
  increments \<open>iterations\<close> whenever \<open>counter\<close> is not zero.
\<close>

definition svd_rotate :: "nat \<Rightarrow> nat \<Rightarrow> float \<Rightarrow> float \<Rightarrow> matrix \<Rightarrow> matrix" where
  "svd_rotate j k c0 s0 M =
     map (\<lambda>row. let d1 = row ! j; d2 = row ! k
               in row[j := d1 * c0 + d2 * s0, k := - d1 * s0 + d2 * c0]) M"

definition svd_pair ::
  "nat \<Rightarrow> float \<Rightarrow> float \<Rightarrow> nat \<times> nat \<Rightarrow> matrix \<times> fvector \<times> int \<Rightarrow> matrix \<times> fvector \<times> int" where
  "svd_pair n e2 threshold jk state =
     (case jk of (j, k) \<Rightarrow> (case state of (M, S2, counter) \<Rightarrow>
       (let p = fold (\<lambda>i acc. acc + M ! i ! j * M ! i ! k) [0..<n] 0;
            q = fold (\<lambda>i acc. acc + pow (M ! i ! j) 2) [0..<n] 0;
            r = fold (\<lambda>i acc. acc + pow (M ! i ! k) 2) [0..<n] 0;
            S2 = S2[j := q, k := r]
        in if r \<le> q then
             (if q \<le> e2 * S2 ! 0 \<or> fabs p \<le> threshold * q then (M, S2, counter - 1)
              else
                (let p = p / q;
                     r = 1 - r / q;
                     vt = fsqrt (4 * pow p 2 + pow r 2);
                     c0 = fsqrt (Fin 0.5 * (1 + r / vt));
                     s0 = p / (vt * c0)
                 in (svd_rotate j k c0 s0 M, S2, counter)))
           else
             (let p = p / r;
                  q = q / r - 1;
                  vt = fsqrt (4 * pow p 2 + pow q 2);
                  s0 = fsqrt (Fin 0.5 * (1 - q / vt));
                  s0 = (if p < 0 then - s0 else s0);
                  c0 = p / (vt * s0)
              in (svd_rotate j k c0 s0 M, S2, counter)))))"

definition svd_pairs :: "nat \<Rightarrow> (nat \<times> nat) list" where
  "svd_pairs estimated_column_rank =
     concat (map (\<lambda>j. map (\<lambda>k. (j, k)) [j + 1..<estimated_column_rank])
                 [0..<estimated_column_rank - 1])"

function svd_shrink_rank :: "float \<Rightarrow> fvector \<Rightarrow> nat \<Rightarrow> nat" where
  "svd_shrink_rank threshold S2 estimated_column_rank =
     (if 2 < estimated_column_rank \<and>
         S2 ! (estimated_column_rank - 1) \<le> S2 ! 0 * threshold + pow threshold 2
      then svd_shrink_rank threshold S2 (estimated_column_rank - 1)
      else estimated_column_rank)"
  by pat_completeness auto
termination
  by (relation "measure (\<lambda>(threshold, S2, estimated_column_rank). estimated_column_rank)") auto

function svd_cycles ::
  "nat \<Rightarrow> float \<Rightarrow> float \<Rightarrow> int \<Rightarrow> matrix \<Rightarrow> fvector \<Rightarrow> nat \<Rightarrow> int \<Rightarrow> int
   \<Rightarrow> matrix \<times> int" where
  "svd_cycles n e2 threshold max_cycles M S2 estimated_column_rank counter iterations =
     (if counter \<noteq> 0 then
        (if iterations \<le> max_cycles then
           (let start = int estimated_column_rank * (int estimated_column_rank - 1) div 2;
                state = fold (svd_pair n e2 threshold) (svd_pairs estimated_column_rank)
                          (M, S2, start);
                S2' = fst (snd state)
            in svd_cycles n e2 threshold max_cycles (fst state) S2'
                 (svd_shrink_rank threshold S2' estimated_column_rank)
                 (snd (snd state)) (iterations + 1))
         else (M, iterations + 1))
      else (M, iterations))"
  by pat_completeness auto
termination
  by (relation "measure (\<lambda>(n, e2, threshold, max_cycles, M, S2, rank, counter, iterations).
                           nat (max_cycles + 1 - iterations))") auto

definition svd_run :: "matrix \<Rightarrow> matrix \<times> int" where
  "svd_run M =
     (let n = length (M ! 0);
          max_cycles = (if n < 120 then 30 else int n div 4);
          epsilon = Fin (1 / 2 ^ 23) * 10;
          e2 = 10 * float_of_int (int n) * pow epsilon 2;
          threshold = Fin 0.1 * epsilon;
          M = take (2 * n) M @ replicate (2 * n - length M) (replicate n 0);
          M = fold (\<lambda>i M. M[n + i := (M ! (n + i))[i := 1]]) [0..<n] M
      in svd_cycles n e2 threshold max_cycles M (replicate n 0) n (int n) 0)"

definition svd :: "matrix \<Rightarrow> fvector" where
  "svd M =
     (let n = length (M ! 0)
      in map (\<lambda>row. row ! (n - 1)) (drop n (fst (svd_run M))))"

text \<open>The condition of the warning of lines 114 and 115.\<close>

definition svd_warns :: "matrix \<Rightarrow> bool" where
  "svd_warns M =
     (let n = length (M ! 0);
          max_cycles = (if n < 120 then 30 else int n div 4)
      in max_cycles < snd (svd_run M))"

section \<open>The conic fitter\<close>

text \<open>
  \<^verbatim>\<open>ellipse_analysis\<close>, lines 123 to 181. \<open>ellipse_phi\<close> collects the four statements
  on the tilt \<open>phi\<close> (lines 149 to 151, 165 and 169); they read \<open>a\<close>, \<open>b\<close>, \<open>c\<close>
  and the semi-axes \<open>a_\<close>, \<open>b_\<close> as computed at lines 156 and 157, before the swap.
  In line 149, \<^verbatim>\<open>phi = 1/2 * atan (2 * b / (a - c))\<close>, the factor \<^verbatim>\<open>1/2\<close> is a division
  of two \<^verbatim>\<open>int\<close> literals, converted to a number afterwards.
\<close>

definition ellipse_phi :: "float \<Rightarrow> float \<Rightarrow> float \<Rightarrow> float \<Rightarrow> float \<Rightarrow> float" where
  "ellipse_phi a b c a' b' =
     (let phi = float_of_int (1 div 2) * fatan (2 * b / (a - c));
          phi = (if c < a then phi + M_PI_2 else phi);
          phi = (if a' < b' then phi - M_PI_2 else phi)
      in fmod (phi + M_PI_2) M_PI - M_PI_2)"

definition ellipse_analysis :: "fvector \<Rightarrow> fvector \<Rightarrow> float \<Rightarrow> float \<times> float \<times> float \<times> float" where
  "ellipse_analysis x y f_normalized =
     (let M = map (\<lambda>i. [pow (x ! i) 2, x ! i * y ! i, pow (y ! i) 2, x ! i, y ! i, 1]) [0..<5];
          parameters = svd M;
          a = parameters ! 0;
          b = parameters ! 1 / 2;
          c = parameters ! 2;
          d = parameters ! 3 / 2;
          f = parameters ! 4 / 2;
          g = parameters ! 5;
          D = pow b 2 - a * c;
          x0 = (c * d - b * f) / D;
          y0 = (a * f - b * d) / D;
          N = 2 * (a * pow f 2 + c * pow d 2 + g * pow b 2 - 2 * b * d * f - a * c * g) / D;
          S = fsqrt (pow (a - c) 2 + 4 * pow b 2);
          R = a + c;
          a' = fsqrt (N / (S - R));
          b' = fsqrt (N / (- S - R));
          phi = ellipse_phi a b c a' b';
          axes = (if a' < b' then (b', a') else (a', b'));
          radius_vertex = - f_normalized / fsqrt (pow (fst axes / snd axes) 2 - 1);
          radius_vertex =
            (if (x ! 0 - x0) * (y ! 1 - y0) < (x ! 1 - x0) * (y ! 0 - y0)
             then radius_vertex * - 1 else radius_vertex)
      in (radius_vertex * fsin phi, radius_vertex * fcos phi, x0, y0))"

section \<open>The angle solver\<close>

text \<open>
  \<^verbatim>\<open>rotate_rho_delta\<close> (lines 215 to 234) and \<^verbatim>\<open>rotate_rho_delta_rho_h\<close> (lines 236
  to 256) apply the matrices \<open>R\<^sub>x(\<delta>) R\<^sub>y(\<rho>)\<close> and \<open>R\<^sub>y(\<rho>\<^sub>h) R\<^sub>x(\<delta>) R\<^sub>y(\<rho>)\<close>.
\<close>

definition rotate_rho_delta :: "float \<Rightarrow> float \<Rightarrow> float \<Rightarrow> float \<Rightarrow> float \<Rightarrow> fvector" where
  "rotate_rho_delta rho delta x y z =
     (let A11 = fcos rho;
          A12 = 0;
          A13 = fsin rho;
          A21 = fsin rho * fsin delta;
          A22 = fcos delta;
          A23 = - fcos rho * fsin delta;
          A31 = - fsin rho * fcos delta;
          A32 = fsin delta;
          A33 = fcos rho * fcos delta
      in [A11 * x + A12 * y + A13 * z,
          A21 * x + A22 * y + A23 * z,
          A31 * x + A32 * y + A33 * z])"

definition rotate_rho_delta_rho_h ::
  "float \<Rightarrow> float \<Rightarrow> float \<Rightarrow> float \<Rightarrow> float \<Rightarrow> float \<Rightarrow> fvector" where
  "rotate_rho_delta_rho_h rho delta rho_h x y z =
     (let A11 = fcos rho * fcos rho_h - fsin rho * fcos delta * fsin rho_h;
          A12 = fsin delta * fsin rho_h;
          A13 = fsin rho * fcos rho_h + fcos rho * fcos delta * fsin rho_h;
          A21 = fsin rho * fsin delta;
          A22 = fcos delta;
          A23 = - fcos rho * fsin delta;
          A31 = - fcos rho * fsin rho_h - fsin rho * fcos delta * fcos rho_h;
          A32 = fsin delta * fcos rho_h;
          A33 = - fsin rho * fsin rho_h + fcos rho * fcos delta * fcos rho_h
      in [A11 * x + A12 * y + A13 * z,
          A21 * x + A22 * y + A23 * z,
          A31 * x + A32 * y + A33 * z])"

text \<open>
  \<^verbatim>\<open>determine_rho_h\<close>, lines 258 to 283. Both \<open>p0\<close> and \<open>p1\<close> are computed from
  \<^verbatim>\<open>x [0], y [0]\<close>, as in lines 262 and 263. The tests \<^verbatim>\<open>y_0 == y_1\<close>, \<^verbatim>\<open>y_0 == 0\<close> and
  \<^verbatim>\<open>z_h == 0\<close> are the program's comparison \<open>feq\<close>.
\<close>

definition determine_rho_h ::
  "float \<Rightarrow> float \<Rightarrow> fvector \<Rightarrow> fvector \<Rightarrow> float \<Rightarrow> float \<Rightarrow> float \<Rightarrow> float" where
  "determine_rho_h rho delta x y f_normalized center_x center_y =
     (let p0 = rotate_rho_delta rho delta (x ! 0) (y ! 0) f_normalized;
          p1 = rotate_rho_delta rho delta (x ! 0) (y ! 0) f_normalized;
          x_0 = p0 ! 0; y_0 = p0 ! 1; z_0 = p0 ! 2;
          x_1 = p1 ! 0; y_1 = p1 ! 1; z_1 = p1 ! 2
      in if feq y_0 y_1 then (if feq y_0 0 then NaN else 0)
         else
           (let Delta = central_projection [x_1 - x_0, z_1 - z_0, y_1 - y_0] (- y_0);
                x_h = x_0 + fst Delta;
                z_h = z_0 + snd Delta;
                rho_h = (if feq z_h 0 then (if 0 < x_h then 0 else M_PI)
                         else M_PI_2 - fatan (x_h / z_h));
                rho_h = (if rotate_rho_delta_rho_h rho delta rho_h center_x center_y
                              f_normalized ! 2 < 0
                         then rho_h - M_PI else rho_h)
            in rho_h))"

text \<open>
  \<^verbatim>\<open>calculate_angles\<close>, lines 285 to 417. The parameter \<open>f_normalized\<close> is passed by
  value: the assignment of line 323 changes the copy of the function. The six reference
  parameters are the result; the function assigns \<open>rho\<close>, \<open>delta\<close>, \<open>rho_h\<close> and
  \<open>alpha\<close> on every path, and has no assignment to
  \<open>center_of_control_points_x\<close> or \<open>center_of_control_points_y\<close>, which therefore
  keep the contents they had at the call (the last two arguments of the model).

  \<open>vanishing_point\<close> is lines 303 to 325: it returns \<open>x_v\<close>, \<open>y_v\<close>, the local
  \<open>center_x\<close> and \<open>center_y\<close> (which \<^verbatim>\<open>ellipse_analysis\<close> overwrites through its
  reference parameters) and the local \<open>f_normalized\<close>. \<open>in_plane_direction\<close> is the
  \<^verbatim>\<open>switch\<close> of lines 335 to 358.
\<close>

definition vanishing_point ::
  "fvector \<Rightarrow> fvector \<Rightarrow> float \<Rightarrow> float \<Rightarrow> float
   \<Rightarrow> float \<times> float \<times> float \<times> float \<times> float" where
  "vanishing_point x y f_normalized center_x center_y =
     (let number_of_control_points = length x
      in if number_of_control_points = 5 \<or> number_of_control_points = 7 then
           (case ellipse_analysis (take 5 x) (take 5 y) f_normalized of
              (x_v, y_v, center_x, center_y) \<Rightarrow> (x_v, y_v, center_x, center_y, f_normalized))
         else
           (case intersection (take 4 x) (take 4 y) of (x_v, y_v) \<Rightarrow>
              if number_of_control_points = 8 then
                (case intersection (take 4 (drop 4 x)) (take 4 (drop 4 y)) of (x_h, y_h) \<Rightarrow>
                   (let radicand = - x_h * x_v - y_h * y_v
                    in (x_v, y_v, center_x, center_y,
                        if 0 \<le> radicand then fsqrt radicand else f_normalized)))
              else (x_v, y_v, center_x, center_y, f_normalized)))"

definition in_plane_direction ::
  "fvector \<Rightarrow> fvector \<Rightarrow> float \<Rightarrow> float \<Rightarrow> float \<Rightarrow> float \<Rightarrow> fvector" where
  "in_plane_direction x y x_v y_v center_x center_y =
     (let number_of_control_points = length x
      in if number_of_control_points = 4 \<or> number_of_control_points = 6 \<or>
            number_of_control_points = 8 then
           (let a = normalize_vec (x_v - x ! 0) (y_v - y ! 0);
                b = normalize_vec (x_v - x ! 2) (y_v - y ! 2)
            in [a ! 0 + b ! 0, a ! 1 + b ! 1])
         else if number_of_control_points = 5 then
           [x_v - center_x, y_v - center_y]
         else
           [x ! 5 - x ! 6, y ! 5 - y ! 6])"

definition calculate_angles ::
  "fvector \<Rightarrow> fvector \<Rightarrow> float \<Rightarrow> float \<Rightarrow> float
   \<Rightarrow> float \<times> float \<times> float \<times> float \<times> float \<times> float" where
  "calculate_angles x y f_normalized center_of_control_points_x center_of_control_points_y =
     (let number_of_control_points = length x;
          center_x =
            (if number_of_control_points = 6 then accumulate (take 4 x) 0 / 4
             else accumulate x 0 / float_of_int (int number_of_control_points));
          center_y =
            (if number_of_control_points = 6 then accumulate (take 4 y) 0 / 4
             else accumulate y 0 / float_of_int (int number_of_control_points))
      in case vanishing_point x y f_normalized center_x center_y of
           (x_v, y_v, center_x, center_y, f_normalized) \<Rightarrow>
     (let rho = fatan (- x_v / f_normalized);
          delta = M_PI_2 - fatan (- y_v / fsqrt (pow x_v 2 + pow f_normalized 2));
          delta = (if rotate_rho_delta rho delta center_x center_y f_normalized ! 2 < 0
                   then delta - M_PI else delta);
          c = in_plane_direction x y x_v y_v center_x center_y;
          swapped_verticals_and_horizontals =
            (number_of_control_points \<noteq> 7 \<and> fabs (c ! 1) < fabs (c ! 0));
          alpha =
            (if number_of_control_points = 7 then
               (let p5 = central_projection
                           (rotate_rho_delta rho delta (x ! 5) (y ! 5) f_normalized) f_normalized;
                    p6 = central_projection
                           (rotate_rho_delta rho delta (x ! 6) (y ! 6) f_normalized) f_normalized;
                    alpha = - atan2 (snd p6 - snd p5) (fst p6 - fst p5)
                in if fabs (c ! 1) < fabs (c ! 0)
                   then - fmod (alpha - M_PI_2) M_PI - M_PI_2
                   else - fmod alpha M_PI - M_PI_2)
             else if fabs (c ! 1) < fabs (c ! 0) then
               (if 0 < rho then M_PI_2 else - M_PI_2)
             else 0);
          rho_h =
            (if number_of_control_points = 4 then
               (let x_perpendicular_line =
                      (if swapped_verticals_and_horizontals then [center_x, center_x]
                       else [center_x - 1, center_x + 1]);
                    y_perpendicular_line =
                      (if swapped_verticals_and_horizontals then [center_y - 1, center_y + 1]
                       else [center_y, center_y]);
                    rho_h = determine_rho_h rho delta x_perpendicular_line y_perpendicular_line
                              f_normalized center_x center_y
                in if isnan rho_h then 0 else rho_h)
             else if number_of_control_points = 5 \<or> number_of_control_points = 7 then 0
             else
               (let rho_h = determine_rho_h rho delta (take 2 (drop 4 x)) (take 2 (drop 4 y))
                              f_normalized center_x center_y
                in if isnan rho_h then
                     (if number_of_control_points = 8 then
                        determine_rho_h rho delta (take 2 (drop 6 x)) (take 2 (drop 6 y))
                          f_normalized center_x center_y
                      else 0)
                   else rho_h))
      in (rho, delta, rho_h, alpha, center_of_control_points_x, center_of_control_points_y)))"

section \<open>The rotation-matrix builder\<close>

text \<open>\<^verbatim>\<open>generate_rotation_matrix\<close>, lines 419 to 470.\<close>

definition generate_rotation_matrix :: "float \<Rightarrow> float \<Rightarrow> float \<Rightarrow> float \<Rightarrow> matrix" where
  "generate_rotation_matrix rho_1 delta rho_2 d =
     (let s_rho_2 = fsin (rho_2 / 2);
          c_rho_2 = fcos (rho_2 / 2);
          s_delta = fsin (delta / 2);
          c_delta = fcos (delta / 2);
          s_rho_1 = fsin (rho_1 / 2);
          c_rho_1 = fcos (rho_1 / 2);
          w = c_rho_2 * c_delta * c_rho_1 - s_rho_2 * c_delta * s_rho_1;
          x = c_rho_2 * s_delta * c_rho_1 + s_rho_2 * s_delta * s_rho_1;
          y = c_rho_2 * c_delta * s_rho_1 + s_rho_2 * c_delta * c_rho_1;
          z = c_rho_2 * s_delta * s_rho_1 - s_rho_2 * s_delta * c_rho_1;
          theta = 2 * facos w;
          theta = (if M_PI < theta then theta - 2 * M_PI else theta);
          s_theta = fsin (theta / 2);
          x = x / s_theta;
          y = y / s_theta;
          z = z / s_theta;
          compression = 10;
          theta = theta * (if d \<le> 0 then d + 1
                           else 1 + 1 / compression * flog (compression * d + 1));
          theta = (if Fin 0.9 * M_PI < theta then Fin 0.9 * M_PI
                   else if theta < - Fin 0.9 * M_PI then - Fin 0.9 * M_PI
                   else theta);
          w = fcos (theta / 2);
          s_theta = fsin (theta / 2);
          x = x * s_theta;
          y = y * s_theta;
          z = z * s_theta
      in [[1 - 2 * pow y 2 - 2 * pow z 2, 2 * x * y - 2 * z * w, 2 * x * z + 2 * y * w],
          [2 * x * y + 2 * z * w, 1 - 2 * pow x 2 - 2 * pow z 2, 2 * y * z - 2 * x * w],
          [2 * x * z - 2 * y * w, 2 * y * z + 2 * x * w, 1 - 2 * pow x 2 - 2 * pow y 2]])"

text \<open>
  The two stages of \<^verbatim>\<open>generate_rotation_matrix\<close> on their own.
  \<open>quaternion_of_angles\<close> is lines 426 to 435: the quaternion \<open>(w, x, y, z)\<close> composed
  from the three angles. \<open>matrix_of_quaternion\<close> is lines 436 to 469: what the function
  does with the quaternion it has composed, from the decomposition into \<open>\<theta>\<close> and the
  axis to the matrix. \<open>generate_rotation_matrix\<close> is the second applied to the first
  (lemma \<open>generate_rotation_matrix_stages\<close> below).
\<close>

definition quaternion_of_angles ::
  "float \<Rightarrow> float \<Rightarrow> float \<Rightarrow> float \<times> float \<times> float \<times> float" where
  "quaternion_of_angles rho_1 delta rho_2 =
     (let s_rho_2 = fsin (rho_2 / 2);
          c_rho_2 = fcos (rho_2 / 2);
          s_delta = fsin (delta / 2);
          c_delta = fcos (delta / 2);
          s_rho_1 = fsin (rho_1 / 2);
          c_rho_1 = fcos (rho_1 / 2);
          w = c_rho_2 * c_delta * c_rho_1 - s_rho_2 * c_delta * s_rho_1;
          x = c_rho_2 * s_delta * c_rho_1 + s_rho_2 * s_delta * s_rho_1;
          y = c_rho_2 * c_delta * s_rho_1 + s_rho_2 * c_delta * c_rho_1;
          z = c_rho_2 * s_delta * s_rho_1 - s_rho_2 * s_delta * c_rho_1
      in (w, x, y, z))"

definition matrix_of_quaternion ::
  "float \<Rightarrow> float \<Rightarrow> float \<Rightarrow> float \<Rightarrow> float \<Rightarrow> matrix" where
  "matrix_of_quaternion w x y z d =
     (let theta = 2 * facos w;
          theta = (if M_PI < theta then theta - 2 * M_PI else theta);
          s_theta = fsin (theta / 2);
          x = x / s_theta;
          y = y / s_theta;
          z = z / s_theta;
          compression = 10;
          theta = theta * (if d \<le> 0 then d + 1
                           else 1 + 1 / compression * flog (compression * d + 1));
          theta = (if Fin 0.9 * M_PI < theta then Fin 0.9 * M_PI
                   else if theta < - Fin 0.9 * M_PI then - Fin 0.9 * M_PI
                   else theta);
          w = fcos (theta / 2);
          s_theta = fsin (theta / 2);
          x = x * s_theta;
          y = y * s_theta;
          z = z * s_theta
      in [[1 - 2 * pow y 2 - 2 * pow z 2, 2 * x * y - 2 * z * w, 2 * x * z + 2 * y * w],
          [2 * x * y + 2 * z * w, 1 - 2 * pow x 2 - 2 * pow z 2, 2 * y * z - 2 * x * w],
          [2 * x * z - 2 * y * w, 2 * y * z + 2 * x * w, 1 - 2 * pow x 2 - 2 * pow y 2]])"

section \<open>The orchestrator\<close>

text \<open>
  The members of \<^verbatim>\<open>lfModifier\<close> the function reads, and the list of registered
  coordinate callbacks. The class is declared outside the file.
\<close>

datatype coord_callback = ModifyCoord_Perspective_Correction_fn

record lfCoordCallbackData =
  callback :: coord_callback
  priority :: int
  data :: "float list"

record lfModifier =
  f_normalized :: float
  NormScale :: float
  CenterX :: float
  CenterY :: float
  CoordCallbacks :: "lfCoordCallbackData list"

text \<open>
  Modelled from the spec: \<^verbatim>\<open>AddCoordCallback\<close> is a member of \<^verbatim>\<open>lfModifier\<close> defined
  outside the file. The specification says that \<^verbatim>\<open>AddCoordCallback (fn, 200, params, size)\<close>
  registers the routine \<open>fn\<close> at the priority 200 and copies the parameter block into
  the pipeline; the model appends the registration to the list of the modifier.
\<close>

definition AddCoordCallback ::
  "lfModifier \<Rightarrow> coord_callback \<Rightarrow> int \<Rightarrow> float list \<Rightarrow> lfModifier" where
  "AddCoordCallback this fn prio params =
     this\<lparr>CoordCallbacks := CoordCallbacks this @
            [\<lparr>callback = fn, priority = prio, data = params\<rparr>]\<rparr>"

text \<open>
  \<^verbatim>\<open>lfModifier::enable_perspective_correction\<close>, lines 472 to 558, in three parts.
  The locals \<open>center_of_control_points_x\<close> and \<open>center_of_control_points_y\<close> are
  declared without a value at line 487 and handed to \<^verbatim>\<open>calculate_angles\<close>; their
  contents at the declaration are the arguments \<open>ccx0\<close> and \<open>ccy0\<close> of the model.

  \<open>reference_center\<close> is lines 477 to 525: it clamps \<open>d\<close>, normalizes the control
  points, calls the angle solver and rotates the chosen reference point; it returns the
  clamped \<open>d\<close>, the angles and \<open>center_coords\<close>. \<open>matrix_set A i j v\<close> is the
  assignment \<^verbatim>\<open>A [i][j] = v\<close>. \<open>parameter_block\<close> is lines 528 to 555: the array
  \<open>tmp\<close>. The assignments of lines 536 to 548 are made one after the other, each
  reading the matrix and the shift as the earlier ones left them.
\<close>

datatype center_type = old_image_center | control_points_center

definition matrix_set :: "matrix \<Rightarrow> nat \<Rightarrow> nat \<Rightarrow> float \<Rightarrow> matrix" where
  "matrix_set A i j v = A[i := (A ! i)[j := v]]"

definition reference_center ::
  "lfModifier \<Rightarrow> fvector \<Rightarrow> fvector \<Rightarrow> float \<Rightarrow> float \<Rightarrow> float
   \<Rightarrow> float \<times> float \<times> float \<times> float \<times> float \<times> fvector" where
  "reference_center this x y d ccx0 ccy0 =
     (let number_of_control_points = length x;
          d = (if d < - 1 then - 1 else d);
          d = (if 1 < d then 1 else d);
          xy = fold (\<lambda>i xy. ((fst xy)[i := fst xy ! i * NormScale this - CenterX this],
                              (snd xy)[i := snd xy ! i * NormScale this - CenterY this]))
                 [0..<number_of_control_points] (x, y)
      in case calculate_angles (fst xy) (snd xy) (f_normalized this) ccx0 ccy0 of
           (rho, delta, rho_h, alpha, center_of_control_points_x, center_of_control_points_y) \<Rightarrow>
     (let z = rotate_rho_delta_rho_h rho delta rho_h 0 0 (f_normalized this) ! 2;
          new_image_center =
            (if z \<le> 0 \<or> 10 < f_normalized this / z then control_points_center
             else old_image_center);
          A = generate_rotation_matrix rho delta rho_h d;
          center_coords =
            (case new_image_center of
               old_image_center \<Rightarrow>
                 [A ! 0 ! 2 * f_normalized this,
                  A ! 1 ! 2 * f_normalized this,
                  A ! 2 ! 2 * f_normalized this]
             | control_points_center \<Rightarrow>
                 [A ! 0 ! 0 * center_of_control_points_x +
                  A ! 0 ! 1 * center_of_control_points_y +
                  A ! 0 ! 2 * f_normalized this,
                  A ! 1 ! 0 * center_of_control_points_x +
                  A ! 1 ! 1 * center_of_control_points_y +
                  A ! 1 ! 2 * f_normalized this,
                  A ! 2 ! 0 * center_of_control_points_x +
                  A ! 2 ! 1 * center_of_control_points_y +
                  A ! 2 ! 2 * f_normalized this])
      in (d, rho, delta, rho_h, alpha, center_coords)))"

definition parameter_block ::
  "lfModifier \<Rightarrow> float \<Rightarrow> float \<Rightarrow> float \<Rightarrow> float \<Rightarrow> float \<Rightarrow> fvector \<Rightarrow> float list" where
  "parameter_block this d rho delta rho_h alpha center_coords =
     (let mapping_scale = f_normalized this / center_coords ! 2;
          A = generate_rotation_matrix (- rho_h) (- delta) (- rho) d;
          A = matrix_set A 0 0 (fcos alpha * A ! 0 ! 0 + fsin alpha * A ! 0 ! 1);
          A = matrix_set A 0 1 (- fsin alpha * A ! 0 ! 0 + fcos alpha * A ! 0 ! 1);
          A = matrix_set A 0 2 (A ! 0 ! 2);
          A = matrix_set A 1 0 (fcos alpha * A ! 1 ! 0 + fsin alpha * A ! 1 ! 1);
          A = matrix_set A 1 1 (- fsin alpha * A ! 1 ! 0 + fcos alpha * A ! 1 ! 1);
          A = matrix_set A 1 2 (A ! 1 ! 2);
          A = matrix_set A 2 0 (fcos alpha * A ! 2 ! 0 + fsin alpha * A ! 2 ! 1);
          A = matrix_set A 2 1 (- fsin alpha * A ! 2 ! 0 + fcos alpha * A ! 2 ! 1);
          A = matrix_set A 2 2 (A ! 2 ! 2);
          Delta = central_projection center_coords (f_normalized this);
          Delta_a = fst Delta;
          Delta_b = snd Delta;
          Delta_a = fcos alpha * Delta_a + fsin alpha * Delta_b;
          Delta_b = - fsin alpha * Delta_a + fcos alpha * Delta_b
      in [A ! 0 ! 0 * mapping_scale, A ! 0 ! 1 * mapping_scale, A ! 0 ! 2,
          A ! 1 ! 0 * mapping_scale, A ! 1 ! 1 * mapping_scale, A ! 1 ! 2,
          A ! 2 ! 0 * mapping_scale, A ! 2 ! 1 * mapping_scale, A ! 2 ! 2,
          f_normalized this, Delta_a / mapping_scale, Delta_b / mapping_scale])"

definition enable_perspective_correction ::
  "lfModifier \<Rightarrow> fvector \<Rightarrow> fvector \<Rightarrow> float \<Rightarrow> float \<Rightarrow> float \<Rightarrow> bool \<times> lfModifier" where
  "enable_perspective_correction this x y d ccx0 ccy0 =
     (let number_of_control_points = int (length x)
      in if f_normalized this \<le> 0 \<or> number_of_control_points < 4 \<or>
            8 < number_of_control_points
         then (False, this)
         else
           (case reference_center this x y d ccx0 ccy0 of
              (d, rho, delta, rho_h, alpha, center_coords) \<Rightarrow>
                if center_coords ! 2 \<le> 0 then (False, this)
                else
                  (True,
                   AddCoordCallback this ModifyCoord_Perspective_Correction_fn 200
                     (parameter_block this d rho delta rho_h alpha center_coords))))"

section \<open>Notions of the specification\<close>

text \<open>
  What the claims compare the program with. \<open>control_points_mean\<close> is one coordinate
  of the reference center as the specification words it: the mean of the first four
  points when there are six, the mean of all points otherwise.
  \<open>registered_block\<close> is the parameter block of the callback registered last.
\<close>

definition control_points_mean :: "fvector \<Rightarrow> float" where
  "control_points_mean x =
     (if length x = 6 then accumulate (take 4 x) 0 / 4
      else accumulate x 0 / float_of_int (int (length x)))"

definition registered_block :: "lfModifier \<Rightarrow> float list" where
  "registered_block this = data (last (CoordCallbacks this))"

definition NaN_matrix :: matrix where
  "NaN_matrix = [[NaN, NaN, NaN], [NaN, NaN, NaN], [NaN, NaN, NaN]]"

definition identity_matrix :: matrix where
  "identity_matrix = [[1, 0, 0], [0, 1, 0], [0, 0, 1]]"

text \<open>The transpose, the product and the determinant of matrices of three rows and columns.\<close>

definition transpose3 :: "matrix \<Rightarrow> matrix" where
  "transpose3 A = map (\<lambda>j. map (\<lambda>i. A ! i ! j) [0, 1, 2]) [0, 1, 2]"

definition mat_mul3 :: "matrix \<Rightarrow> matrix \<Rightarrow> matrix" where
  "mat_mul3 A B =
     map (\<lambda>i. map (\<lambda>j. A ! i ! 0 * B ! 0 ! j + A ! i ! 1 * B ! 1 ! j + A ! i ! 2 * B ! 2 ! j)
                 [0, 1, 2]) [0, 1, 2]"

definition det3 :: "matrix \<Rightarrow> float" where
  "det3 A =
     A ! 0 ! 0 * (A ! 1 ! 1 * A ! 2 ! 2 - A ! 1 ! 2 * A ! 2 ! 1)
     - A ! 0 ! 1 * (A ! 1 ! 0 * A ! 2 ! 2 - A ! 1 ! 2 * A ! 2 ! 0)
     + A ! 0 ! 2 * (A ! 1 ! 0 * A ! 2 ! 1 - A ! 1 ! 1 * A ! 2 ! 0)"

text \<open>
  The tilt of the conic as the specification words it: \<open>\<phi>\<close> is
  \<open>\<onehalf> atan (2 b / (a - c))\<close>, shifted by \<open>\<pi>/2\<close> when \<open>a > c\<close>, then by a further step of
  \<open>\<pi>/2\<close> when \<open>a' < b'\<close>, and reduced with the same \<^verbatim>\<open>fmod\<close> expression.
\<close>

definition ellipse_phi_spec :: "float \<Rightarrow> float \<Rightarrow> float \<Rightarrow> float \<Rightarrow> float \<Rightarrow> float" where
  "ellipse_phi_spec a b c a' b' =
     (let phi = Fin (1 / 2) * fatan (2 * b / (a - c));
          phi = (if c < a then phi + M_PI_2 else phi);
          phi = (if a' < b' then phi - M_PI_2 else phi)
      in fmod (phi + M_PI_2) M_PI - M_PI_2)"

text \<open>
  The parameter block as the specification words it: the backward rotation is multiplied
  from the right by \<open>R\<^sub>z(\<alpha>)\<close>, every new entry computed from the entries of the
  rotation as \<open>generate_rotation_matrix\<close> returned it, and the projected shift is
  rotated by \<open>\<alpha>\<close> as a pair.
\<close>

definition parameter_block_spec ::
  "lfModifier \<Rightarrow> float \<Rightarrow> float \<Rightarrow> float \<Rightarrow> float \<Rightarrow> float \<Rightarrow> fvector \<Rightarrow> float list" where
  "parameter_block_spec this d rho delta rho_h alpha center_coords =
     (let mapping_scale = f_normalized this / center_coords ! 2;
          A = generate_rotation_matrix (- rho_h) (- delta) (- rho) d;
          R = map (\<lambda>row. [fcos alpha * row ! 0 + fsin alpha * row ! 1,
                            - fsin alpha * row ! 0 + fcos alpha * row ! 1,
                            row ! 2]) A;
          Delta = central_projection center_coords (f_normalized this);
          Delta_a = fcos alpha * fst Delta + fsin alpha * snd Delta;
          Delta_b = - fsin alpha * fst Delta + fcos alpha * snd Delta
      in [R ! 0 ! 0 * mapping_scale, R ! 0 ! 1 * mapping_scale, R ! 0 ! 2,
          R ! 1 ! 0 * mapping_scale, R ! 1 ! 1 * mapping_scale, R ! 1 ! 2,
          R ! 2 ! 0 * mapping_scale, R ! 2 ! 1 * mapping_scale, R ! 2 ! 2,
          f_normalized this, Delta_a / mapping_scale, Delta_b / mapping_scale])"



subsection \<open>Inputs of the examples\<close>

text \<open>
  The modifier of the end-to-end scenarios of the specification: \<open>f_normalized = 1\<close>,
  \<open>NormScale = 1\<close>, \<open>CenterX = CenterY = 0\<close>, and no callback registered.
\<close>

definition scenario_modifier :: lfModifier where
  "scenario_modifier =
     \<lparr>f_normalized = Fin 1, NormScale = Fin 1, CenterX = Fin 0, CenterY = Fin 0,
      CoordCallbacks = []\<rparr>"

text \<open>Scenario A: the corners of an axis-aligned square; the two lines are parallel.\<close>

definition scenario_A_x :: fvector where
  "scenario_A_x = [Fin (- (1 / 2)), Fin (- (1 / 2)), Fin (1 / 2), Fin (1 / 2)]"

definition scenario_A_y :: fvector where
  "scenario_A_y = [Fin (- (1 / 2)), Fin (1 / 2), Fin (- (1 / 2)), Fin (1 / 2)]"



text \<open>
  Four points on two lines that meet at \<open>(- 3/4, - 15/16)\<close>, to the right of the points:
  the vanishing point lies to the side, and the in-plane angle is \<open>\<pi>/2\<close>.
\<close>

definition sideways_x :: fvector where
  "sideways_x = [Fin (- (19 / 4)), Fin (- (35 / 4)), Fin (- (19 / 4)), Fin (- (35 / 4))]"

definition sideways_y :: fvector where
  "sideways_y = [Fin (- (63 / 16)), Fin (- (111 / 16)), Fin (33 / 16), Fin (81 / 16)]"

text \<open>
  Four points below the optical axis: the lines through the first and the last two
  points meet at the optical axis \<open>(0, 0)\<close>, and the mean of the points is \<open>(0, -6)\<close>.
\<close>

definition centered_x :: fvector where
  "centered_x = [Fin (- 3), Fin (- 6), Fin 3, Fin 6]"

definition centered_y :: fvector where
  "centered_y = [Fin (- 4), Fin (- 8), Fin (- 4), Fin (- 8)]"

section \<open>Arithmetic of the numbers\<close>

lemma numeral_float: "(numeral n :: float) = Fin (numeral n)"
proof (induction n)
  case One
  show ?case by (simp add: one_float_def)
next
  case (Bit0 n)
  have "(numeral (num.Bit0 n) :: float) = numeral n + numeral n"
    by (rule numeral_Bit0)
  also have "\<dots> = Fin (numeral n + numeral n)"
    by (simp add: Bit0.IH plus_float_def)
  also have "\<dots> = Fin (numeral (num.Bit0 n))"
    by (simp only: numeral_Bit0)
  finally show ?case .
next
  case (Bit1 n)
  have "(numeral (num.Bit1 n) :: float) = numeral n + numeral n + 1"
    by (rule numeral_Bit1)
  also have "\<dots> = Fin (numeral n + numeral n + 1)"
    by (simp add: Bit1.IH plus_float_def one_float_def)
  also have "\<dots> = Fin (numeral (num.Bit1 n))"
    by (simp only: numeral_Bit1)
  finally show ?case .
qed

lemma float_arith:
  "Fin u + Fin v = Fin (u + v)" "NaN + a = NaN" "a + NaN = NaN"
  "Fin u - Fin v = Fin (u - v)" "NaN - a = NaN" "a - NaN = NaN"
  "Fin u * Fin v = Fin (u * v)" "NaN * a = NaN" "a * NaN = NaN"
  "- Fin u = Fin (- u)" "- NaN = NaN"
  "Fin u / Fin v = (if v = 0 then NaN else Fin (u / v))" "NaN / a = NaN" "a / NaN = NaN"
  by (simp_all add: plus_float_def minus_float_def times_float_def uminus_float_def
      divide_float_def split: float.splits)

lemma float_compare:
  "Fin u < Fin v \<longleftrightarrow> u < v" "\<not> NaN < a" "\<not> a < NaN"
  "Fin u \<le> Fin v \<longleftrightarrow> u \<le> v" "\<not> NaN \<le> a" "\<not> a \<le> NaN"
  "feq (Fin u) (Fin v) \<longleftrightarrow> u = v" "\<not> feq NaN a" "\<not> feq a NaN"
  "isnan NaN" "\<not> isnan (Fin u)"
  by (simp_all add: less_float_def less_eq_float_def feq_def isnan_def split: float.splits)

lemma float_libm:
  "pow (Fin u) n = Fin (u ^ n)" "pow NaN n = NaN"
  "fsqrt (Fin u) = (if u < 0 then NaN else Fin (sqrt u))" "fsqrt NaN = NaN"
  "fsin (Fin u) = Fin (sin u)" "fsin NaN = NaN"
  "fcos (Fin u) = Fin (cos u)" "fcos NaN = NaN"
  "fatan (Fin u) = Fin (arctan u)" "fatan NaN = NaN"
  "facos (Fin u) = (if u < - 1 \<or> 1 < u then NaN else Fin (arccos u))" "facos NaN = NaN"
  "flog (Fin u) = (if u \<le> 0 then NaN else Fin (ln u))" "flog NaN = NaN"
  "fabs (Fin u) = Fin \<bar>u\<bar>" "fabs NaN = NaN"
  "fmod NaN a = NaN" "fmod a NaN = NaN"
  "atan2 NaN a = NaN" "atan2 a NaN = NaN"
  by (simp_all add: pow_def fsqrt_def fsin_def fcos_def fatan_def facos_def flog_def
      fabs_def fmod_def atan2_def split: float.splits)

lemmas float_simps =
  zero_float_def one_float_def numeral_float float_arith float_compare float_libm
  M_PI_def M_PI_2_def float_of_int_def

lemma fmod_Fin: "fmod (Fin u) (Fin v) = (if v = 0 then NaN else Fin (u - trunc (u / v) * v))"
  by (simp add: fmod_def)

lemma trunc_small: "0 \<le> u \<Longrightarrow> u < 1 \<Longrightarrow> trunc u = 0"
  by (simp add: trunc_def floor_eq_iff)

lemma upt4: "[0..<4] = [0, 1, 2, 3]"
  by code_simp


lemma sqrt25: "sqrt 25 = 5" "sqrt (25 / 16) = 5 / 4"
  by (rule real_sqrt_unique; simp add: power2_eq_square)+

lemma sqrt2_bounds: "1 < sqrt 2" "sqrt 2 < 2"
  using real_sqrt_less_mono [of 1 2] real_sqrt_less_mono [of 2 4] by simp_all

lemma cos_unit: "0 < a \<Longrightarrow> a < pi / 2 \<Longrightarrow> 0 < cos a \<and> cos a < 1"
proof
  assume a: "0 < a" "a < pi / 2"
  show "0 < cos a" using a by (intro cos_gt_zero_pi) simp_all
  have "cos a < cos 0" using a by (intro cos_monotone_0_pi) simp_all
  then show "cos a < 1" by simp
qed

section \<open>Values of the functions\<close>

subsection \<open>\<open>determine_rho_h\<close>\<close>

lemma determine_rho_h_value:
  "determine_rho_h rho delta x y f cx cy =
     (if isnan (rotate_rho_delta rho delta (x ! 0) (y ! 0) f ! 1) then NaN
      else if feq (rotate_rho_delta rho delta (x ! 0) (y ! 0) f ! 1) 0 then NaN
      else 0)"
proof (cases "rotate_rho_delta rho delta (x ! 0) (y ! 0) f ! 1")
  case NaN
  then show ?thesis
    by (simp add: determine_rho_h_def Let_def float_simps central_projection_def
        rotate_rho_delta_rho_h_def)
next
  case (Fin u)
  then show ?thesis
    by (simp add: determine_rho_h_def Let_def float_simps)
qed

subsection \<open>\<open>generate_rotation_matrix\<close>\<close>

text \<open>A \<open>NaN\<close> angle gives a matrix of \<open>NaN\<close>.\<close>

lemma generate_rotation_matrix_NaN:
  "generate_rotation_matrix NaN b c d = NaN_matrix"
  "generate_rotation_matrix a b NaN d = NaN_matrix"
  by (simp_all add: generate_rotation_matrix_def Let_def float_simps NaN_matrix_def)

text \<open>
  With the strength \<open>d = - 1\<close> the angle is scaled by \<open>d + 1 = 0\<close>: when the scalar part
  \<open>w\<close> of the quaternion is strictly between \<open>- 1\<close> and 1, the result is the identity.
\<close>

lemma generate_rotation_matrix_no_strength:
  assumes w: "cos (r2 / 2) * cos (dl / 2) * cos (r1 / 2)
              - sin (r2 / 2) * cos (dl / 2) * sin (r1 / 2) = w"
    and lo: "- 1 < w" and hi: "w < 1"
  shows "generate_rotation_matrix (Fin r1) (Fin dl) (Fin r2) (Fin (- 1)) = identity_matrix"
proof -
  have b: "0 < arccos w" "arccos w < pi"
    using arccos_lt_bounded [OF lo hi] by simp_all
  have s1: "sin (arccos w) \<noteq> 0"
    using sin_gt_zero [OF b] by simp
  have r: "\<not> w < - 1" "\<not> 1 < w" using lo hi by simp_all
  show ?thesis
  proof (cases "pi < 2 * arccos w")
    case True
    have e: "(2 * arccos w - 2 * pi) / 2 = arccos w - pi" by (simp add: field_simps)
    have s2: "sin ((2 * arccos w - 2 * pi) / 2) \<noteq> 0"
      unfolding e using s1 by (simp add: sin_diff)
    show ?thesis
      using True s2 r
      by (simp add: generate_rotation_matrix_def identity_matrix_def Let_def float_simps w)
  next
    case False
    show ?thesis
      using False s1 r
      by (simp add: generate_rotation_matrix_def identity_matrix_def Let_def float_simps w)
  qed
qed

text \<open>The function is its second stage applied to its first.\<close>

lemma generate_rotation_matrix_stages:
  "generate_rotation_matrix rho_1 delta rho_2 d =
     (case quaternion_of_angles rho_1 delta rho_2 of
        (w, x, y, z) \<Rightarrow> matrix_of_quaternion w x y z d)"
  unfolding generate_rotation_matrix_def quaternion_of_angles_def matrix_of_quaternion_def
    Let_def prod.case
  by (rule refl)

text \<open>
  The rotation angle \<open>2 acos w\<close> is zero for the scalar part \<open>w = 1\<close> only; there the
  axis components are divided by \<open>sin 0\<close>, and multiplying by \<open>sin (\<theta> / 2)\<close> afterwards
  does not bring a number back.
\<close>

lemma zero_angle_scalar_part:
  assumes "2 * facos w = 0"
  shows "w = Fin 1"
proof (cases w)
  case NaN
  with assms show ?thesis by (simp add: float_simps)
next
  case (Fin u)
  with assms have b: "- 1 \<le> u" "u \<le> 1" and a: "arccos u = 0"
    by (simp_all add: float_simps split: if_splits)
  have "cos (arccos u) = u" using b by (rule cos_arccos)
  with a have "u = 1" by simp
  with Fin show ?thesis by simp
qed

lemma matrix_of_unit_quaternion: "matrix_of_quaternion (Fin 1) x y z d = NaN_matrix"
  by (cases x; cases y; cases z)
     (simp_all add: matrix_of_quaternion_def NaN_matrix_def Let_def float_simps)

lemma zero_angles_quaternion:
  "quaternion_of_angles (Fin 0) (Fin 0) (Fin 0) = (Fin 1, Fin 0, Fin 0, Fin 0)"
  by (simp add: quaternion_of_angles_def Let_def float_simps)

subsection \<open>\<open>ellipse_phi\<close>\<close>

text \<open>The coefficient \<open>b\<close> of the conic has no influence on the tilt the program computes.\<close>

lemma ellipse_phi_ignores_b:
  "a \<noteq> c \<Longrightarrow>
   ellipse_phi (Fin a) (Fin b) (Fin c) a' b' = ellipse_phi (Fin a) (Fin 0) (Fin c) a' b'"
  by (simp add: ellipse_phi_def Let_def float_simps)

subsection \<open>Slot 9 of the parameter block\<close>





subsection \<open>Eight points with a radicand that is not negative\<close>








text \<open>A call that returns false leaves the modifier as it was: nothing is registered.\<close>

lemma failure_registers_nothing:
  "\<not> fst (enable_perspective_correction this x y d ccx0 ccy0) \<Longrightarrow>
   snd (enable_perspective_correction this x y d ccx0 ccy0) = this"
  by (auto simp add: enable_perspective_correction_def Let_def split: prod.splits if_splits)

subsection \<open>Scenario A\<close>

text \<open>
  The two lines are parallel: \<open>intersection\<close> divides by \<open>C = 0\<close>, the vanishing point
  and with it \<open>\<rho>\<close> and \<open>\<delta>\<close> are \<open>NaN\<close>, every comparison on them is false, and
  \<open>determine_rho_h\<close> returns \<open>NaN\<close>, which line 401 replaces by 0.
\<close>

lemma scenario_A_vanishing_point:
  "vanishing_point scenario_A_x scenario_A_y f cx cy = (NaN, NaN, cx, cy, f)"
proof -
  have "intersection (take 4 scenario_A_x) (take 4 scenario_A_y) = (NaN, NaN)"
    by (simp add: intersection_def scenario_A_x_def scenario_A_y_def Let_def float_simps)
  then show ?thesis
    by (simp add: vanishing_point_def Let_def) (simp add: scenario_A_x_def)
qed

lemma scenario_A_length: "length scenario_A_x = 4" "length scenario_A_y = 4"
  by (simp_all add: scenario_A_x_def scenario_A_y_def)

lemma rotate_rho_delta_NaN: "rotate_rho_delta NaN delta x y z = [NaN, NaN, NaN]"
  by (simp add: rotate_rho_delta_def Let_def float_simps)

lemma determine_rho_h_NaN: "determine_rho_h NaN delta x y f cx cy = NaN"
  by (simp add: determine_rho_h_value rotate_rho_delta_NaN float_simps)

lemma scenario_A_direction:
  "in_plane_direction scenario_A_x scenario_A_y NaN NaN cx cy = [NaN, NaN]"
  by (simp add: in_plane_direction_def normalize_vec_def scenario_A_length Let_def float_simps)

lemma scenario_A_angles:
  "calculate_angles scenario_A_x scenario_A_y (Fin 1) u v = (NaN, NaN, Fin 0, Fin 0, u, v)"
  unfolding calculate_angles_def Let_def scenario_A_length scenario_A_vanishing_point prod.case
    scenario_A_direction
  by (simp add: rotate_rho_delta_NaN determine_rho_h_NaN float_simps)

lemma scenario_A_points:
  "fold (\<lambda>i xy. ((fst xy)[i := fst xy ! i * NormScale scenario_modifier - CenterX scenario_modifier],
                  (snd xy)[i := snd xy ! i * NormScale scenario_modifier - CenterY scenario_modifier]))
     [0..<length scenario_A_x] (scenario_A_x, scenario_A_y) = (scenario_A_x, scenario_A_y)"
  by (simp add: scenario_A_x_def scenario_A_y_def upt4 scenario_modifier_def float_simps)

lemma scenario_A_center:
  "reference_center scenario_modifier scenario_A_x scenario_A_y (Fin 0) u v =
     (Fin 0, NaN, NaN, Fin 0, Fin 0, [NaN, NaN, NaN])"
  apply (simp only: reference_center_def Let_def scenario_A_points fst_conv snd_conv)
  apply (simp add: scenario_modifier_def scenario_A_angles generate_rotation_matrix_NaN
      NaN_matrix_def rotate_rho_delta_rho_h_def Let_def float_simps)
  done

lemma scenario_A_block:
  "parameter_block scenario_modifier (Fin 0) NaN NaN (Fin 0) (Fin 0) [NaN, NaN, NaN] =
     [NaN, NaN, NaN, NaN, NaN, NaN, NaN, NaN, NaN, Fin 1, NaN, NaN]"
  by (simp add: parameter_block_def generate_rotation_matrix_NaN NaN_matrix_def matrix_set_def
      central_projection_def Let_def float_simps scenario_modifier_def)

lemma scenario_A_enable:
  "enable_perspective_correction scenario_modifier scenario_A_x scenario_A_y (Fin 0) u v =
     (True, scenario_modifier\<lparr>CoordCallbacks :=
        [\<lparr>callback = ModifyCoord_Perspective_Correction_fn, priority = 200,
          data = [NaN, NaN, NaN, NaN, NaN, NaN, NaN, NaN, NaN, Fin 1, NaN, NaN]\<rparr>]\<rparr>)"
  apply (simp add: enable_perspective_correction_def scenario_A_center scenario_A_block
      Let_def float_simps AddCoordCallback_def)
  apply (simp add: scenario_modifier_def scenario_A_x_def float_simps)
  done

subsection \<open>Eight points and the strength \<open>- 1\<close>\<close>














subsection \<open>Four points with the vanishing point to the side\<close>

lemma trig345:
  "sin (arctan (3 / 4)) = 3 / 5" "cos (arctan (3 / 4)) = 4 / 5"
  "sin (pi / 2 - arctan (3 / 4)) = 4 / 5" "cos (pi / 2 - arctan (3 / 4)) = 3 / 5"
proof -
  have e: "(1::real) + (3 / 4)\<^sup>2 = 25 / 16" by (simp add: power2_eq_square)
  show s: "sin (arctan (3 / 4)) = 3 / 5" by (simp add: sin_arctan e sqrt25)
  show c: "cos (arctan (3 / 4)) = 4 / 5" by (simp add: cos_arctan e sqrt25)
  show "sin (pi / 2 - arctan (3 / 4)) = 4 / 5" by (simp add: sin_diff c)
  show "cos (pi / 2 - arctan (3 / 4)) = 3 / 5" by (simp add: cos_diff s)
qed

lemma sideways_length: "length sideways_x = 4" "length sideways_y = 4"
  by (simp_all add: sideways_x_def sideways_y_def)

lemma sideways_vanishing_point:
  "vanishing_point sideways_x sideways_y (Fin 1) cx cy
     = (Fin (- (3 / 4)), Fin (- (15 / 16)), cx, cy, Fin 1)"
  by (simp add: vanishing_point_def intersection_def sideways_x_def sideways_y_def Let_def
      float_simps)

lemma sideways_direction:
  "in_plane_direction sideways_x sideways_y (Fin (- (3 / 4))) (Fin (- (15 / 16))) cx cy
     = [Fin (8 / 5), Fin 0]"
  by (simp add: in_plane_direction_def normalize_vec_def sideways_x_def sideways_y_def Let_def
      float_simps sqrt25)

lemma sideways_mean:
  "accumulate sideways_x (Fin 0) / Fin 4 = Fin (- (27 / 4))"
  "accumulate sideways_y (Fin 0) / Fin 4 = Fin (- (15 / 16))"
  by (simp_all add: accumulate_def sideways_x_def sideways_y_def float_simps)

lemma rotate_345:
  "rotate_rho_delta (Fin (arctan (3 / 4))) (Fin (pi / 2 - arctan (3 / 4))) (Fin x) (Fin y) (Fin z) =
     [Fin (4 / 5 * x + 3 / 5 * z), Fin (12 / 25 * x + 3 / 5 * y - 16 / 25 * z),
      Fin (- (9 / 25) * x + 4 / 5 * y + 12 / 25 * z)]"
  by (simp add: rotate_rho_delta_def Let_def float_simps trig345)

lemma sideways_rho_delta:
  "fatan (- Fin (- (3 / 4)) / Fin 1) = Fin (arctan (3 / 4))"
  "M_PI_2 - fatan (- Fin (- (15 / 16)) / fsqrt (pow (Fin (- (3 / 4))) 2 + pow (Fin 1) 2))
     = Fin (pi / 2 - arctan (3 / 4))"
proof -
  have e: "((3::real) / 4)\<^sup>2 + 1 = 25 / 16" by (simp add: power2_eq_square)
  show "fatan (- Fin (- (3 / 4)) / Fin 1) = Fin (arctan (3 / 4))"
    by (simp add: float_simps)
  show "M_PI_2 - fatan (- Fin (- (15 / 16)) / fsqrt (pow (Fin (- (3 / 4))) 2 + pow (Fin 1) 2))
     = Fin (pi / 2 - arctan (3 / 4))"
    by (simp add: float_simps e sqrt25)
qed

lemma sideways_angles:
  "calculate_angles sideways_x sideways_y (Fin 1) u v =
     (Fin (arctan (3 / 4)), Fin (pi / 2 - arctan (3 / 4)), Fin 0, Fin (pi / 2), u, v)"
  unfolding calculate_angles_def Let_def sideways_length sideways_vanishing_point prod.case
    sideways_rho_delta sideways_direction
  by (simp add: sideways_mean rotate_345 determine_rho_h_value float_simps)

lemma sideways_points:
  "fold (\<lambda>i xy. ((fst xy)[i := fst xy ! i * NormScale scenario_modifier - CenterX scenario_modifier],
                  (snd xy)[i := snd xy ! i * NormScale scenario_modifier - CenterY scenario_modifier]))
     [0..<length sideways_x] (sideways_x, sideways_y) = (sideways_x, sideways_y)"
  by (simp add: sideways_x_def sideways_y_def upt4 scenario_modifier_def float_simps)

lemma sideways_w:
  "0 < cos ((pi / 2 - arctan (3 / 4)) / 2) * cos (arctan (3 / 4) / 2)"
  "cos ((pi / 2 - arctan (3 / 4)) / 2) * cos (arctan (3 / 4) / 2) < 1"
proof -
  have t: "0 < arctan (3 / 4 :: real)" "arctan (3 / 4 :: real) < pi / 2"
    using arctan_ubound [of "3 / 4"] by simp_all
  have a: "0 < cos (arctan (3 / 4) / 2) \<and> cos (arctan (3 / 4) / 2) < 1"
    using t pi_gt_zero by (intro cos_unit) linarith+
  have b1: "0 < (pi / 2 - arctan (3 / 4)) / 2"
    using t by simp
  have "pi / 2 - arctan (3 / 4) < pi"
    using t pi_gt_zero by linarith
  then have b2: "(pi / 2 - arctan (3 / 4)) / 2 < pi / 2"
    by simp
  have b: "0 < cos ((pi / 2 - arctan (3 / 4)) / 2) \<and> cos ((pi / 2 - arctan (3 / 4)) / 2) < 1"
    using b1 b2 by (rule cos_unit)
  show "0 < cos ((pi / 2 - arctan (3 / 4)) / 2) * cos (arctan (3 / 4) / 2)"
    using a b by simp
  have "cos ((pi / 2 - arctan (3 / 4)) / 2) * cos (arctan (3 / 4) / 2) < 1 * 1"
    using a b by (intro mult_strict_mono) simp_all
  then show "cos ((pi / 2 - arctan (3 / 4)) / 2) * cos (arctan (3 / 4) / 2) < 1" by simp
qed

lemma sideways_rotation_forward:
  "generate_rotation_matrix (Fin (arctan (3 / 4))) (Fin (pi / 2 - arctan (3 / 4))) (Fin 0)
     (Fin (- 1)) = identity_matrix"
  by (rule generate_rotation_matrix_no_strength
        [where w = "cos ((pi / 2 - arctan (3 / 4)) / 2) * cos (arctan (3 / 4) / 2)"])
     (use sideways_w in simp_all)

lemma sideways_rotation_backward:
  "generate_rotation_matrix (- Fin 0) (- Fin (pi / 2 - arctan (3 / 4)))
     (- Fin (arctan (3 / 4))) (Fin (- 1)) = identity_matrix"
  unfolding float_arith
  by (rule generate_rotation_matrix_no_strength
        [where w = "cos ((pi / 2 - arctan (3 / 4)) / 2) * cos (arctan (3 / 4) / 2)"])
     (use sideways_w in \<open>simp_all add: mult.commute del: minus_diff_eq\<close>)

lemma sideways_center:
  "reference_center scenario_modifier sideways_x sideways_y (Fin (- 1)) u v =
     (Fin (- 1), Fin (arctan (3 / 4)), Fin (pi / 2 - arctan (3 / 4)), Fin 0, Fin (pi / 2),
      [Fin 0, Fin 0, Fin 1])"
  apply (simp only: reference_center_def Let_def sideways_points fst_conv snd_conv)
  apply (simp add: scenario_modifier_def sideways_angles sideways_rotation_forward
      identity_matrix_def rotate_rho_delta_rho_h_def Let_def float_simps trig345)
  done

lemma sideways_block:
  "parameter_block scenario_modifier (Fin (- 1)) (Fin (arctan (3 / 4)))
     (Fin (pi / 2 - arctan (3 / 4))) (Fin 0) (Fin (pi / 2)) [Fin 0, Fin 0, Fin 1]
   = [Fin 0, Fin 0, Fin 0, Fin 1, Fin (- 1), Fin 0, Fin 0, Fin 0, Fin 1, Fin 1, Fin 0, Fin 0]"
  unfolding parameter_block_def sideways_rotation_backward
  by (simp add: scenario_modifier_def identity_matrix_def matrix_set_def central_projection_def
      Let_def float_simps)

lemma sideways_block_spec:
  "parameter_block_spec scenario_modifier (Fin (- 1)) (Fin (arctan (3 / 4)))
     (Fin (pi / 2 - arctan (3 / 4))) (Fin 0) (Fin (pi / 2)) [Fin 0, Fin 0, Fin 1]
   = [Fin 0, Fin (- 1), Fin 0, Fin 1, Fin 0, Fin 0, Fin 0, Fin 0, Fin 1, Fin 1, Fin 0, Fin 0]"
  unfolding parameter_block_spec_def sideways_rotation_backward
  by (simp add: scenario_modifier_def identity_matrix_def central_projection_def Let_def
      float_simps)

lemma sideways_enable:
  "enable_perspective_correction scenario_modifier sideways_x sideways_y (Fin (- 1)) u v =
     (True, scenario_modifier\<lparr>CoordCallbacks :=
        [\<lparr>callback = ModifyCoord_Perspective_Correction_fn, priority = 200,
          data = [Fin 0, Fin 0, Fin 0, Fin 1, Fin (- 1), Fin 0, Fin 0, Fin 0, Fin 1,
                  Fin 1, Fin 0, Fin 0]\<rparr>]\<rparr>)"
  apply (simp add: enable_perspective_correction_def sideways_center sideways_block float_simps
      AddCoordCallback_def)
  apply (simp add: scenario_modifier_def sideways_x_def float_simps)
  done

subsection \<open>Four points below the optical axis\<close>

text \<open>
  The vanishing point is the optical axis, so \<open>\<rho> = 0\<close> and \<open>\<delta> = - \<pi>/2\<close>: the
  rotation maps \<open>(x, y, z)\<close> to \<open>(x, z, - y)\<close>, the optical axis lands at \<open>z = 0\<close>,
  and the orchestrator takes the center of the control points as its reference. The
  third coordinate of the rotated reference is minus the second coordinate of the
  point handed in.
\<close>

lemma centered_length: "length centered_x = 4" "length centered_y = 4"
  by (simp_all add: centered_x_def centered_y_def)

lemma centered_vanishing_point:
  "vanishing_point centered_x centered_y (Fin 1) cx cy = (Fin 0, Fin 0, cx, cy, Fin 1)"
  by (simp add: vanishing_point_def intersection_def centered_x_def centered_y_def Let_def
      float_simps)

lemma centered_direction:
  "in_plane_direction centered_x centered_y (Fin 0) (Fin 0) cx cy = [Fin 0, Fin (8 / 5)]"
  by (simp add: in_plane_direction_def normalize_vec_def centered_x_def centered_y_def Let_def
      float_simps sqrt25)

lemma centered_mean:
  "accumulate centered_x (Fin 0) / Fin 4 = Fin 0"
  "accumulate centered_y (Fin 0) / Fin 4 = Fin (- 6)"
  by (simp_all add: accumulate_def centered_x_def centered_y_def float_simps)

lemma rotate_up:
  "rotate_rho_delta (Fin 0) (Fin (pi / 2)) (Fin x) (Fin y) (Fin z) = [Fin x, Fin (- z), Fin y]"
  by (simp add: rotate_rho_delta_def Let_def float_simps)

lemma rotate_down:
  "rotate_rho_delta (Fin 0) (Fin (- (pi / 2))) (Fin x) (Fin y) (Fin z) = [Fin x, Fin z, Fin (- y)]"
  by (simp add: rotate_rho_delta_def Let_def float_simps)

lemma centered_rho_delta:
  "fatan (- Fin 0 / Fin 1) = Fin 0"
  "M_PI_2 - fatan (- Fin 0 / fsqrt (pow (Fin 0) 2 + pow (Fin 1) 2)) = Fin (pi / 2)"
  by (simp_all add: float_simps)

lemma centered_angles:
  "calculate_angles centered_x centered_y (Fin 1) u v
     = (Fin 0, Fin (- (pi / 2)), Fin 0, Fin 0, u, v)"
  unfolding calculate_angles_def Let_def centered_length centered_vanishing_point prod.case
    centered_rho_delta centered_direction
  by (simp add: centered_mean rotate_up rotate_down determine_rho_h_value float_simps)

lemma centered_points:
  "fold (\<lambda>i xy. ((fst xy)[i := fst xy ! i * NormScale scenario_modifier - CenterX scenario_modifier],
                  (snd xy)[i := snd xy ! i * NormScale scenario_modifier - CenterY scenario_modifier]))
     [0..<length centered_x] (centered_x, centered_y) = (centered_x, centered_y)"
  by (simp add: centered_x_def centered_y_def upt4 scenario_modifier_def float_simps)

lemma arccos_45: "arccos (sqrt 2 / 2) = pi / 4"
proof -
  have "arccos (cos (pi / 4)) = pi / 4"
    by (rule arccos_cos) (simp_all add: pi_gt_zero)
  then show ?thesis by (simp add: cos_45)
qed

lemma centered_rotation:
  "generate_rotation_matrix (Fin 0) (Fin (- (pi / 2))) (Fin 0) (Fin 0)
     = [[Fin 1, Fin 0, Fin 0], [Fin 0, Fin 0, Fin 1], [Fin 0, Fin (- 1), Fin 0]]"
proof -
  have q: "quaternion_of_angles (Fin 0) (Fin (- (pi / 2))) (Fin 0)
             = (Fin (sqrt 2 / 2), Fin (- (sqrt 2 / 2)), Fin 0, Fin 0)"
    by (simp add: quaternion_of_angles_def Let_def float_simps sin_45 cos_45)
  have b: "\<not> sqrt 2 / 2 < - 1" "\<not> 1 < sqrt 2 / 2" "sqrt 2 \<noteq> 0"
    using sqrt2_bounds by linarith+
  have m: "matrix_of_quaternion (Fin (sqrt 2 / 2)) (Fin (- (sqrt 2 / 2))) (Fin 0) (Fin 0) (Fin 0)
             = [[Fin 1, Fin 0, Fin 0], [Fin 0, Fin 0, Fin 1], [Fin 0, Fin (- 1), Fin 0]]"
    using b
    apply (simp add: matrix_of_quaternion_def Let_def float_simps arccos_45 sin_45 cos_45
        power2_eq_square)
    using pi_gt_zero apply linarith
    done
  show ?thesis
    by (simp add: generate_rotation_matrix_stages q m)
qed

lemma centered_center:
  "reference_center scenario_modifier centered_x centered_y (Fin 0) (Fin u) (Fin v) =
     (Fin 0, Fin 0, Fin (- (pi / 2)), Fin 0, Fin 0, [Fin u, Fin 1, Fin (- v)])"
  apply (simp only: reference_center_def Let_def centered_points fst_conv snd_conv)
  apply (simp add: scenario_modifier_def centered_angles centered_rotation
      rotate_rho_delta_rho_h_def Let_def float_simps)
  done

lemma centered_fails:
  "enable_perspective_correction scenario_modifier centered_x centered_y (Fin 0) (Fin 0) (Fin 1)
     = (False, scenario_modifier)"
  by (simp add: enable_perspective_correction_def centered_center float_simps)

lemma centered_succeeds:
  "fst (enable_perspective_correction scenario_modifier centered_x centered_y (Fin 0) (Fin 0)
          (Fin (- 1)))"
  apply (simp add: enable_perspective_correction_def centered_center float_simps)
  apply (simp add: scenario_modifier_def centered_x_def float_simps)
  done

section \<open>The callback reads one number of its block\<close>

text \<open>
  C1. The claim: for every parameter block and every pair \<open>(x, y)\<close> the callback computes
  \<open>(x', y', z')\<close> as the packed matrix applied to \<open>(x + \<Delta>a / s, y + \<Delta>b / s, f)\<close> and
  writes back \<open>(x' f / z', y' f / z')\<close>. The program's callback does not: at the block of
  the identity matrix with \<open>f = 1\<close> and no shift, and the pair \<open>(2, 0)\<close>, it writes
  \<open>(8, 0)\<close> (\<open>k1 = 1\<close>, \<open>poly2 = 0 + 1 * (4 + 0)\<close>), where the map of the claim writes
  \<open>(2, 0)\<close>.
\<close>

theorem callback_is_not_the_matrix_map:
  "ModifyCoord_Perspective_Correction
     [Fin 1, Fin 0, Fin 0, Fin 0, Fin 1, Fin 0, Fin 0, Fin 0, Fin 1, Fin 1, Fin 0, Fin 0]
     [Fin 2, Fin 0] 1 = [Fin 8, Fin 0]
   \<and> spec_callback
     [Fin 1, Fin 0, Fin 0, Fin 0, Fin 1, Fin 0, Fin 0, Fin 0, Fin 1, Fin 1, Fin 0, Fin 0]
     [Fin 2, Fin 0] 1 = [Fin 2, Fin 0]"
  by (simp add: ModifyCoord_Perspective_Correction_def spec_callback_def float_simps)

section \<open>The rotation-matrix builder at a zero rotation angle\<close>

text \<open>
  C10. For every quaternion whose rotation angle \<open>\<theta> = 2 acos w\<close> is zero, the function
  divides the axis components by \<open>sin (\<theta> / 2) = 0\<close> with no guard: every entry of the
  matrix it returns is \<open>NaN\<close>, whatever the axis components and \<open>d\<close> are, and the
  matrix is not the identity. Here \<open>w\<close> is the scalar part as line 432 has computed it,
  and \<open>matrix_of_quaternion\<close> is the function from line 436 on. Which angles lead to
  \<open>w = 1\<close> is a matter of the rounding of sine and cosine and is not part of the
  statement. The angles \<open>\<rho>\<^sub>1 = \<delta> = \<rho>\<^sub>2 = 0\<close> do, every operation on them being
  exact: their quaternion is \<open>(1, 0, 0, 0)\<close>.
\<close>

theorem zero_rotation_angle_divides_by_zero:
  assumes "2 * facos w = 0"
  shows "fsin (2 * facos w / 2) = 0
         \<and> matrix_of_quaternion w x y z d = NaN_matrix
         \<and> matrix_of_quaternion w x y z d \<noteq> identity_matrix"
proof -
  have w: "w = Fin 1" using assms by (rule zero_angle_scalar_part)
  have "fsin (2 * facos w / 2) = 0" by (simp add: w float_simps)
  moreover have "matrix_of_quaternion w x y z d = NaN_matrix"
    by (simp add: w matrix_of_unit_quaternion)
  moreover have "NaN_matrix \<noteq> identity_matrix"
    by (simp add: NaN_matrix_def identity_matrix_def float_simps)
  ultimately show ?thesis by simp
qed

text \<open>
  The zero angles: the quaternion is \<open>(1, 0, 0, 0)\<close>, the rotation angle is zero, and
  \<open>generate_rotation_matrix\<close> returns the matrix of \<open>NaN\<close>.
\<close>

theorem zero_rotation_angle_divides_by_zero_witness:
  "quaternion_of_angles (Fin 0) (Fin 0) (Fin 0) = (Fin 1, Fin 0, Fin 0, Fin 0)
   \<and> 2 * facos (Fin 1) = 0
   \<and> fsin (2 * facos (Fin 1) / 2) = 0
   \<and> matrix_of_quaternion (Fin 1) (Fin 0) (Fin 0) (Fin 0) (Fin 0) = NaN_matrix
   \<and> generate_rotation_matrix (Fin 0) (Fin 0) (Fin 0) (Fin 0) = NaN_matrix
   \<and> generate_rotation_matrix (Fin 0) (Fin 0) (Fin 0) (Fin 0) \<noteq> identity_matrix"
proof -
  have h: "2 * facos (Fin 1) = 0" by (simp add: float_simps)
  have n: "NaN_matrix \<noteq> identity_matrix"
    by (simp add: NaN_matrix_def identity_matrix_def float_simps)
  from zero_rotation_angle_divides_by_zero [OF h, of "Fin 0" "Fin 0" "Fin 0" "Fin 0"]
  show ?thesis
    by (simp add: h n generate_rotation_matrix_stages zero_angles_quaternion)
qed

text \<open>
  C9. The claim: for every triple of angles and \<open>d = 0\<close> the matrix \<open>A\<close> returned by
  \<open>generate_rotation_matrix\<close> satisfies \<open>A\<^sup>T A = I\<close> and \<open>det A = 1\<close>. At the angles
  \<open>(0, 0, 0)\<close> the program divides 0 by 0: every entry of \<open>A\<^sup>T A\<close> is \<open>NaN\<close>, and so
  is the determinant.
\<close>

theorem zero_angles_matrix_is_not_orthogonal:
  "mat_mul3 (transpose3 (generate_rotation_matrix (Fin 0) (Fin 0) (Fin 0) (Fin 0)))
     (generate_rotation_matrix (Fin 0) (Fin 0) (Fin 0) (Fin 0)) = NaN_matrix
   \<and> det3 (generate_rotation_matrix (Fin 0) (Fin 0) (Fin 0) (Fin 0)) = NaN
   \<and> NaN_matrix \<noteq> identity_matrix"
  by (simp add: generate_rotation_matrix_def mat_mul3_def transpose3_def det3_def
      NaN_matrix_def identity_matrix_def Let_def float_simps)

section \<open>The residual horizontal correction\<close>

text \<open>
  C6, as amended. \<open>determine_rho_h\<close> returns 0 when the rotated \<open>y_0\<close> is a number
  other than zero, and \<open>NaN\<close> when \<open>y_0\<close> is zero or \<open>NaN\<close>; it never returns another
  number. When \<open>y_0\<close> is a number, \<^verbatim>\<open>y_0 == y_1\<close> holds and the first branch answers.
  When \<open>y_0\<close> is \<open>NaN\<close>, \<^verbatim>\<open>y_0 == y_1\<close> is false and the \<^verbatim>\<open>else\<close> branch runs; all it
  computes is \<open>NaN\<close>.
\<close>

theorem determine_rho_h_zero_or_NaN:
  "determine_rho_h rho delta x y f cx cy =
     (if isnan (rotate_rho_delta rho delta (x ! 0) (y ! 0) f ! 1) then NaN
      else if feq (rotate_rho_delta rho delta (x ! 0) (y ! 0) f ! 1) 0 then NaN
      else 0)"
  by (rule determine_rho_h_value)

text \<open>
  C6, the counterexample. The claim says that \<^verbatim>\<open>y_0 == y_1\<close> holds on every input and
  that the function returns 0 whenever \<open>y_0\<close> is not zero. With \<open>rho = NaN\<close> (what the
  angle solver passes when the control lines are parallel) \<open>y_0\<close> is \<open>NaN\<close>: the test
  \<^verbatim>\<open>y_0 == y_1\<close> is false, \<open>y_0\<close> is not zero, and the result is \<open>NaN\<close>, not 0.
\<close>

theorem determine_rho_h_else_branch_runs:
  "\<not> feq (rotate_rho_delta NaN NaN (Fin (- 1)) (Fin 0) (Fin 1) ! 1)
         (rotate_rho_delta NaN NaN (Fin (- 1)) (Fin 0) (Fin 1) ! 1)
   \<and> \<not> feq (rotate_rho_delta NaN NaN (Fin (- 1)) (Fin 0) (Fin 1) ! 1) 0
   \<and> determine_rho_h NaN NaN [Fin (- 1), Fin 1] [Fin 0, Fin 0] (Fin 1) (Fin 0) (Fin 0) = NaN
   \<and> NaN \<noteq> (0 :: float)"
  by (simp add: determine_rho_h_def rotate_rho_delta_def rotate_rho_delta_rho_h_def
      central_projection_def Let_def float_simps)

section \<open>The center of the control points\<close>

text \<open>
  C3. The claim: \<open>calculate_angles\<close> returns through its last two reference parameters
  the mean of the control points. The program computes the mean into the locals
  \<open>center_x\<close> and \<open>center_y\<close> and never assigns
  \<open>center_of_control_points_x\<close> or \<open>center_of_control_points_y\<close>: for four points
  with the mean \<open>(0, -1/2)\<close> and the contents \<open>(7, 7)\<close> at the call, the two
  parameters hold \<open>(7, 7)\<close> at the return.
\<close>

theorem calculate_angles_leaves_center_unassigned:
  "snd (snd (snd (snd (calculate_angles
      [Fin (- 1), Fin (- (1 / 2)), Fin 1, Fin (1 / 2)]
      [Fin 0, Fin (- 1), Fin 0, Fin (- 1)] (Fin 1) (Fin 7) (Fin 7))))) = (Fin 7, Fin 7)
   \<and> accumulate [Fin (- 1), Fin (- (1 / 2)), Fin 1, Fin (1 / 2)] 0 / float_of_int 4 = Fin 0
   \<and> accumulate [Fin 0, Fin (- 1), Fin 0, Fin (- 1)] 0 / float_of_int 4 = Fin (- (1 / 2))"
  by (simp add: calculate_angles_def accumulate_def Let_def float_simps split: prod.splits)

section \<open>The tilt of the conic\<close>

text \<open>
  C7. The claim: the tilt is computed as \<open>\<onehalf> atan (2 b / (a - c))\<close>, shifted by \<open>\<pi>/2\<close>
  when \<open>a > c\<close>, by a further step of \<open>\<pi>/2\<close> when \<open>a' < b'\<close>, and reduced. In the
  program the factor \<^verbatim>\<open>1/2\<close> of line 149 is the integer 0, so the arctangent never
  enters the tilt: for \<open>a = 1\<close>, \<open>b = 1\<close>, \<open>c = 2\<close> and \<open>a' \<ge> b'\<close> the program
  computes the tilt 0, where the formula of the claim gives \<open>- \<onehalf> atan 2\<close>, which is
  not 0.
\<close>

theorem ellipse_phi_drops_the_arctangent:
  "ellipse_phi (Fin 1) (Fin 1) (Fin 2) (Fin 2) (Fin 1) = Fin 0
   \<and> ellipse_phi_spec (Fin 1) (Fin 1) (Fin 2) (Fin 2) (Fin 1) = Fin (- (arctan 2 / 2))
   \<and> Fin (- (arctan 2 / 2)) \<noteq> Fin 0"
proof -
  have a: "0 < arctan (2 :: real)" "arctan (2 :: real) < pi / 2"
    using arctan_ubound [of 2] by simp_all
  let ?u = "(pi / 2 - arctan 2 / 2) / pi"
  have n: "0 \<le> pi / 2 - arctan 2 / 2" "pi / 2 - arctan 2 / 2 < pi"
    using a pi_gt_zero by linarith+
  have "0 \<le> ?u" using n(1) pi_gt_zero by simp
  moreover have "?u < 1" using n(2) pi_gt_zero by simp
  ultimately have t: "trunc ?u = 0" by (rule trunc_small)
  have e: "- (arctan 2 / 2) + pi / 2 = pi / 2 - arctan 2 / 2" by simp
  have code: "ellipse_phi (Fin 1) (Fin 1) (Fin 2) (Fin 2) (Fin 1) = Fin 0"
    by (simp add: ellipse_phi_def Let_def float_simps fmod_Fin trunc_small)
  have spec: "ellipse_phi_spec (Fin 1) (Fin 1) (Fin 2) (Fin 2) (Fin 1) = Fin (- (arctan 2 / 2))"
    by (simp add: ellipse_phi_spec_def Let_def float_simps fmod_Fin arctan_minus e t)
  show ?thesis using code spec a by simp
qed

section \<open>Failure of the orchestrator\<close>

text \<open>
  C4. The claim: \<open>enable_perspective_correction\<close> returns false exactly when
  \<open>f_normalized \<le> 0\<close>, or the number of control points is outside \<open>[4, 8]\<close>, or the
  rotated reference center has a third coordinate \<open>\<le> 0\<close>. The point the program
  rotates when it takes the center of the control points as its reference is the
  contents of the locals \<open>center_of_control_points_x\<close> and
  \<open>center_of_control_points_y\<close>, which \<open>calculate_angles\<close> never assigns (C3), so the
  three conditions do not decide the result. For the points \<open>x = [-3, -6, 3, 6]\<close>,
  \<open>y = [-4, -8, -4, -8]\<close>, with \<open>f_normalized = 1\<close>, \<open>NormScale = 1\<close>,
  \<open>CenterX = CenterY = 0\<close> and \<open>d = 0\<close>, none of the three holds: there are four
  points, their mean is \<open>(0, -6)\<close>, and the mean rotated is \<open>(0, 1, 6)\<close>. With the
  contents \<open>(0, 1)\<close> in the two locals the function returns false and registers
  nothing; with the contents \<open>(0, -1)\<close> it returns true.
\<close>

theorem failure_follows_the_unassigned_center:
  "\<not> f_normalized \<lparr>f_normalized = Fin 1, NormScale = Fin 1, CenterX = Fin 0, CenterY = Fin 0,
        CoordCallbacks = []\<rparr> \<le> 0
   \<and> length [Fin (- 3), Fin (- 6), Fin 3, Fin 6] = 4
   \<and> control_points_mean [Fin (- 3), Fin (- 6), Fin 3, Fin 6] = Fin 0
   \<and> control_points_mean [Fin (- 4), Fin (- 8), Fin (- 4), Fin (- 8)] = Fin (- 6)
   \<and> reference_center
       \<lparr>f_normalized = Fin 1, NormScale = Fin 1, CenterX = Fin 0, CenterY = Fin 0,
        CoordCallbacks = []\<rparr>
       [Fin (- 3), Fin (- 6), Fin 3, Fin 6] [Fin (- 4), Fin (- 8), Fin (- 4), Fin (- 8)]
       (Fin 0) (Fin 0) (Fin (- 6))
     = (Fin 0, Fin 0, Fin (- (pi / 2)), Fin 0, Fin 0, [Fin 0, Fin 1, Fin 6])
   \<and> \<not> Fin 6 \<le> (0 :: float)
   \<and> enable_perspective_correction
       \<lparr>f_normalized = Fin 1, NormScale = Fin 1, CenterX = Fin 0, CenterY = Fin 0,
        CoordCallbacks = []\<rparr>
       [Fin (- 3), Fin (- 6), Fin 3, Fin 6] [Fin (- 4), Fin (- 8), Fin (- 4), Fin (- 8)]
       (Fin 0) (Fin 0) (Fin 1)
     = (False,
        \<lparr>f_normalized = Fin 1, NormScale = Fin 1, CenterX = Fin 0, CenterY = Fin 0,
         CoordCallbacks = []\<rparr>)
   \<and> fst (enable_perspective_correction
       \<lparr>f_normalized = Fin 1, NormScale = Fin 1, CenterX = Fin 0, CenterY = Fin 0,
        CoordCallbacks = []\<rparr>
       [Fin (- 3), Fin (- 6), Fin 3, Fin 6] [Fin (- 4), Fin (- 8), Fin (- 4), Fin (- 8)]
       (Fin 0) (Fin 0) (Fin (- 1)))"
proof -
  have m: "control_points_mean centered_x = Fin 0" "control_points_mean centered_y = Fin (- 6)"
    by (simp_all add: control_points_mean_def centered_length centered_mean float_simps)
  have f: "\<not> f_normalized scenario_modifier \<le> 0"
    by (simp add: scenario_modifier_def float_simps)
  have z: "\<not> Fin 6 \<le> (0 :: float)"
    by (simp add: float_simps)
  show ?thesis
    unfolding scenario_modifier_def [symmetric] centered_x_def [symmetric]
      centered_y_def [symmetric]
    using m f z centered_length(1) centered_center [of 0 "- 6"] centered_fails centered_succeeds
    by simp
qed

section \<open>The focal length of the parameter block\<close>




section \<open>The in-plane rotation of the parameter block\<close>

text \<open>
  C5. The claim: the packed matrix is the product of the backward rotation with
  \<open>R\<^sub>z(\<alpha>)\<close>, every new entry computed from the original entries, and likewise the
  shift. The program overwrites \<open>A[i][0]\<close> first and computes \<open>A[i][1]\<close> from the
  new \<open>A[i][0]\<close> (lines 536 to 543), and \<open>Delta_b\<close> from the new \<open>Delta_a\<close>
  (lines 547 and 548). For four points with the vanishing point to the side
  (\<open>\<alpha> = \<pi>/2\<close>) and the strength \<open>- 1\<close> (the backward rotation is the identity) the
  registered block carries the matrix \<open>[0, 0, 0; 1, -1, 0; 0, 0, 1]\<close>, where the
  product with \<open>R\<^sub>z(\<pi>/2)\<close> is \<open>[0, -1, 0; 1, 0, 0; 0, 0, 1]\<close>.
\<close>

theorem packed_matrix_is_not_the_product:
  "enable_perspective_correction
     \<lparr>f_normalized = Fin 1, NormScale = Fin 1, CenterX = Fin 0, CenterY = Fin 0,
      CoordCallbacks = []\<rparr>
     [Fin (- (19 / 4)), Fin (- (35 / 4)), Fin (- (19 / 4)), Fin (- (35 / 4))]
     [Fin (- (63 / 16)), Fin (- (111 / 16)), Fin (33 / 16), Fin (81 / 16)]
     (Fin (- 1)) (Fin 0) (Fin 0)
   = (True,
      \<lparr>f_normalized = Fin 1, NormScale = Fin 1, CenterX = Fin 0, CenterY = Fin 0,
       CoordCallbacks =
         [\<lparr>callback = ModifyCoord_Perspective_Correction_fn, priority = 200,
           data = [Fin 0, Fin 0, Fin 0, Fin 1, Fin (- 1), Fin 0, Fin 0, Fin 0, Fin 1,
                   Fin 1, Fin 0, Fin 0]\<rparr>]\<rparr>)
   \<and> reference_center
     \<lparr>f_normalized = Fin 1, NormScale = Fin 1, CenterX = Fin 0, CenterY = Fin 0,
      CoordCallbacks = []\<rparr>
     [Fin (- (19 / 4)), Fin (- (35 / 4)), Fin (- (19 / 4)), Fin (- (35 / 4))]
     [Fin (- (63 / 16)), Fin (- (111 / 16)), Fin (33 / 16), Fin (81 / 16)]
     (Fin (- 1)) (Fin 0) (Fin 0)
   = (Fin (- 1), Fin (arctan (3 / 4)), Fin (pi / 2 - arctan (3 / 4)), Fin 0, Fin (pi / 2),
      [Fin 0, Fin 0, Fin 1])
   \<and> parameter_block_spec
     \<lparr>f_normalized = Fin 1, NormScale = Fin 1, CenterX = Fin 0, CenterY = Fin 0,
      CoordCallbacks = []\<rparr>
     (Fin (- 1)) (Fin (arctan (3 / 4))) (Fin (pi / 2 - arctan (3 / 4))) (Fin 0) (Fin (pi / 2))
     [Fin 0, Fin 0, Fin 1]
   = [Fin 0, Fin (- 1), Fin 0, Fin 1, Fin 0, Fin 0, Fin 0, Fin 0, Fin 1, Fin 1, Fin 0, Fin 0]"
  unfolding scenario_modifier_def [symmetric] sideways_x_def [symmetric]
    sideways_y_def [symmetric]
  by (simp add: sideways_enable sideways_center sideways_block_spec)
     (simp add: scenario_modifier_def)

section \<open>Scenario A\<close>

text \<open>
  C8, as amended. For the input \<open>x = [-0.5, -0.5, 0.5, 0.5]\<close>,
  \<open>y = [-0.5, 0.5, -0.5, 0.5]\<close>, \<open>d = 0\<close>, with \<open>f_normalized = 1\<close>,
  \<open>NormScale = 1\<close> and \<open>CenterX = CenterY = 0\<close>, \<open>enable_perspective_correction\<close>
  succeeds and registers one callback at the priority 200. The two lines through the
  control points are parallel, \<open>intersection\<close> divides 0 by 0, and the registered
  parameter block holds \<open>f_normalized = 1\<close> in slot 9 and \<open>NaN\<close> in every other slot.
\<close>

theorem scenario_A_registers_NaN_block:
  "enable_perspective_correction
     \<lparr>f_normalized = Fin 1, NormScale = Fin 1, CenterX = Fin 0, CenterY = Fin 0,
      CoordCallbacks = []\<rparr>
     [Fin (- (1 / 2)), Fin (- (1 / 2)), Fin (1 / 2), Fin (1 / 2)]
     [Fin (- (1 / 2)), Fin (1 / 2), Fin (- (1 / 2)), Fin (1 / 2)]
     (Fin 0) ccx0 ccy0
   = (True,
      \<lparr>f_normalized = Fin 1, NormScale = Fin 1, CenterX = Fin 0, CenterY = Fin 0,
       CoordCallbacks =
         [\<lparr>callback = ModifyCoord_Perspective_Correction_fn, priority = 200,
           data = [NaN, NaN, NaN, NaN, NaN, NaN, NaN, NaN, NaN, Fin 1, NaN, NaN]\<rparr>]\<rparr>)"
  unfolding scenario_modifier_def [symmetric] scenario_A_x_def [symmetric]
    scenario_A_y_def [symmetric]
  by (simp add: scenario_A_enable) (simp add: scenario_modifier_def)

text \<open>
  C8, the counterexample. The claim says that the registered mapping leaves \<open>(0, 0)\<close>
  fixed. On the registered block the callback of the program maps \<open>(0, 0)\<close> to
  \<open>(NaN, NaN)\<close>, and so does the map the specification describes.
\<close>

theorem scenario_A_does_not_fix_the_origin:
  "ModifyCoord_Perspective_Correction
     (registered_block (snd (enable_perspective_correction
        \<lparr>f_normalized = Fin 1, NormScale = Fin 1, CenterX = Fin 0, CenterY = Fin 0,
         CoordCallbacks = []\<rparr>
        [Fin (- (1 / 2)), Fin (- (1 / 2)), Fin (1 / 2), Fin (1 / 2)]
        [Fin (- (1 / 2)), Fin (1 / 2), Fin (- (1 / 2)), Fin (1 / 2)]
        (Fin 0) (Fin 0) (Fin 0))))
     [Fin 0, Fin 0] 1 = [NaN, NaN]
   \<and> spec_callback
     (registered_block (snd (enable_perspective_correction
        \<lparr>f_normalized = Fin 1, NormScale = Fin 1, CenterX = Fin 0, CenterY = Fin 0,
         CoordCallbacks = []\<rparr>
        [Fin (- (1 / 2)), Fin (- (1 / 2)), Fin (1 / 2), Fin (1 / 2)]
        [Fin (- (1 / 2)), Fin (1 / 2), Fin (- (1 / 2)), Fin (1 / 2)]
        (Fin 0) (Fin 0) (Fin 0))))
     [Fin 0, Fin 0] 1 = [NaN, NaN]
   \<and> [NaN, NaN] \<noteq> [Fin 0, Fin 0]"
  unfolding scenario_modifier_def [symmetric] scenario_A_x_def [symmetric]
    scenario_A_y_def [symmetric]
  by (simp add: scenario_A_enable registered_block_def ModifyCoord_Perspective_Correction_def
      spec_callback_def float_simps)

end
